theory Spec2Isabelle
  imports Main
begin

section \<open>Emitted text\<close>

text \<open>
  The compiler emits Lua as JavaScript strings. A string is a \<^typ>\<open>string\<close>; the
  escapes \<^verbatim>\<open>\n\<close> and \<^verbatim>\<open>\t\<close> of the source are the one-character strings below.
\<close>

definition newline :: string where
  "newline = [CHR 0x0A]"

definition tab :: string where
  "tab = [CHR 0x09]"

text \<open>\<^verbatim>\<open>Array.prototype.join\<close>.\<close>

fun join :: "string \<Rightarrow> string list \<Rightarrow> string" where
  "join sep [] = []"
| "join sep [x] = x"
| "join sep (x # y # ys) = x @ sep @ join sep (y # ys)"

text \<open>
  \<^verbatim>\<open>String.prototype.substr(start, length)\<close> for a start inside the string: a length
  that is negative selects nothing.
\<close>

definition substr :: "nat \<Rightarrow> int \<Rightarrow> string \<Rightarrow> string" where
  "substr start len s = take (nat len) (drop start s)"

section \<open>Source nodes\<close>

text \<open>
  The nodes of the typed syntax tree, as far as the lowering functions look at them.
  A numeric literal carries its source text.
\<close>

datatype expr =
    Identifier string
  | NumericLiteral string
  | ParenthesizedExpression expr
  | NonNullExpression expr
  | ArrayLiteralExpression "expr list"
  | CallExpression expr "expr list"
  | NewExpression expr "expr list"
  | SuperExpression
  | PropertyAccessExpression expr string
  | ElementAccessExpression expr "expr option"
  | OtherExpression string

datatype statement =
    ExpressionStatement expr
  | ReturnStatement "expr option"
  | IfStatement expr "statement list" "statement list"
  | OtherStatement string

text \<open>
  The value of an enum member (\<^verbatim>\<open>getValue()\<close>): a number, given by the text that
  JavaScript's number-to-string conversion yields for it, a string, or undefined.
\<close>

datatype enumValue = NumberValue string | StringValue string | UndefinedValue

text \<open>
  The value declaration of a symbol, by kind. An enum declaration carries whether it is
  a const enum, and its members with their values.
\<close>

datatype valueDecl =
    DeclFunctionDeclaration
  | DeclArrowFunction
  | DeclFunctionExpression
  | DeclMethodDeclaration
  | DeclEnumDeclaration bool "(string \<times> enumValue) list"
  | DeclClassDeclaration
  | DeclOther string

record symbol =
  symbolName :: string
  valueDeclaration :: "valueDecl option"

text \<open>
  A resolved type. The source compares types by reference; \<open>typeId\<close> stands for the
  identity of the type object.
\<close>

record tsType =
  typeId :: nat
  typeText :: string
  typeIsObject :: bool
  typeSymbol :: "symbol option"

text \<open>
  A parameter declaration: its name, its type and its first child of kind Identifier
  (text and type), when it has one.
\<close>

record parameterDeclaration =
  parameterName :: string
  parameterType :: tsType
  parameterIdentifier :: "(string \<times> tsType) option"

datatype body = BlockBody "statement list" | ExpressionBody expr | OtherBody string

datatype functionKind =
    FunctionExpression
  | ArrowFunction
  | FunctionDeclaration
  | ConstructorDeclaration
  | MethodDeclaration
  | GetAccessorDeclaration
  | SetAccessorDeclaration

text \<open>
  A node with parameters (\<^verbatim>\<open>HasParameters\<close>). \<open>classParent\<close> is the type of the first
  ancestor that is a class declaration or, failing that, a class expression.
\<close>

record functionNode =
  functionKind :: functionKind
  parameters :: "parameterDeclaration list"
  isAsync :: bool
  isGenerator :: bool
  nameNode :: "string option"
  returnType :: tsType
  classParent :: "tsType option"
  functionBody :: "body option"

datatype node =
    ExpressionNode expr
  | StatementNode statement
  | FunctionNode functionNode
  | OtherNode string

record returnStatement =
  returnExpression :: "expr option"
  returnAncestors :: "node list"

section \<open>Errors\<close>

datatype CompilerErrorType =
    BadFunctionBody
  | NoConstructorReturn
  | InvalidMacroIndex
  | NoFunctionIndex
  | NoClassPrototype
  | OtherErrorType string

text \<open>
  A thrown \<^verbatim>\<open>CompilerError(message, node, type)\<close>, or an error thrown by the syntax-tree
  library (\<^verbatim>\<open>getBodyOrThrow\<close>, \<^verbatim>\<open>getMemberOrThrow\<close>, \<^verbatim>\<open>getSymbolOrThrow\<close>,
  \<^verbatim>\<open>getArgumentExpressionOrThrow\<close>), a failed \<^verbatim>\<open>assert\<close>, or an internal
  consistency fault of the compiler state.
\<close>

datatype error =
    CompilerError string node CompilerErrorType
  | LibraryError string
  | AssertionError string
  | InternalFault string

section \<open>The compiler state\<close>

text \<open>
  Modelled from the spec: the class \<^verbatim>\<open>CompilerState\<close> is not among the sources. The
  state holds the current indentation, the stack of fresh-id counters (one per scope
  frame, innermost last), the hoist registry, the stack of preceding-statement buffers
  (innermost last) and the flag that the runtime library is used.
\<close>

record CompilerState =
  indent :: string
  idStack :: "nat list"
  hoistStack :: "string list"
  precedingStatementContexts :: "string list list"
  usesTSLibrary :: bool

text \<open>
  Modelled from the spec: emission is indented to the current nesting depth. Entering a
  nesting level adds one tab to the indentation and leaving it takes the tab away.
\<close>

definition pushIndent :: "CompilerState \<Rightarrow> CompilerState" where
  "pushIndent st = st\<lparr>indent := indent st @ tab\<rparr>"

definition popIndent :: "CompilerState \<Rightarrow> CompilerState" where
  "popIndent st = st\<lparr>indent := butlast (indent st)\<rparr>"

text \<open>Modelled from the spec: \<^verbatim>\<open>pushScope\<close> and \<^verbatim>\<open>popScope\<close> of the naming frames.\<close>

definition pushIdStack :: "CompilerState \<Rightarrow> CompilerState" where
  "pushIdStack st = st\<lparr>idStack := idStack st @ [0]\<rparr>"

definition popIdStack :: "CompilerState \<Rightarrow> CompilerState" where
  "popIdStack st = st\<lparr>idStack := butlast (idStack st)\<rparr>"

text \<open>Modelled from the spec: \<^verbatim>\<open>registerHoist\<close>.\<close>

definition pushHoistStack :: "CompilerState \<Rightarrow> string \<Rightarrow> CompilerState" where
  "pushHoistStack st name = st\<lparr>hoistStack := hoistStack st @ [name]\<rparr>"

text \<open>
  Modelled from the spec: \<^verbatim>\<open>enterPrecedingContext\<close> opens a new innermost buffer;
  \<^verbatim>\<open>exitPrecedingContext\<close> closes the innermost buffer and returns its statements,
  here joined into one text. An exit with no open buffer is the fatal
  internal-consistency fault of the spec.
\<close>

definition enterPrecedingStatementContext :: "CompilerState \<Rightarrow> CompilerState" where
  "enterPrecedingStatementContext st =
     st\<lparr>precedingStatementContexts := precedingStatementContexts st @ [[]]\<rparr>"

definition exitPrecedingStatementContextAndJoin ::
  "CompilerState \<Rightarrow> error + string \<times> CompilerState" where
  "exitPrecedingStatementContextAndJoin st =
     (case precedingStatementContexts st of
        [] \<Rightarrow> Inl (InternalFault ''no preceding statement context'')
      | c # cs \<Rightarrow>
          Inr (concat (last (c # cs)),
               st\<lparr>precedingStatementContexts := butlast (c # cs)\<rparr>))"

section \<open>Collaborators\<close>

text \<open>
  The lowering functions call functions of the compiler that are not among the sources,
  and query the type checker. They are parameters of the model: every theorem holds for
  all of them. A function that takes the compiler state returns the state it leaves;
  a function that may throw returns an \<^typ>\<open>error\<close> on the left.
\<close>

type_synonym 'a compiled = "error + 'a \<times> CompilerState"

definition andThen :: "'a compiled \<Rightarrow> ('a \<Rightarrow> CompilerState \<Rightarrow> 'b compiled) \<Rightarrow> 'b compiled" where
  "andThen r f = (case r of Inl e \<Rightarrow> Inl e | Inr (x, st) \<Rightarrow> f x st)"

definition checked :: "error option \<Rightarrow> 'b compiled \<Rightarrow> 'b compiled" where
  "checked r k = (case r of Some e \<Rightarrow> Inl e | None \<Rightarrow> k)"

datatype PropertyCallExpType =
    PropertyCallExpType_None
  | PropertyCallExpType_Array
  | PropertyCallExpType_String
  | PropertyCallExpType_Other string

text \<open>
  \<open>getParameterData\<close> is handed the arrays \<open>paramNames\<close>, \<open>initializers\<close> and (for a
  constructor) \<open>defaults\<close>, which it fills; it returns their contents here.
  \<open>pushPrecedingStatementToNextId\<close> is the state's method that extracts an expression
  text into a temporary and returns the temporary's name.
\<close>

record collaborators =
  compileExpression :: "CompilerState \<Rightarrow> expr \<Rightarrow> string compiled"
  compileCallExpression :: "CompilerState \<Rightarrow> expr \<Rightarrow> bool \<Rightarrow> string compiled"
  compileNumericLiteral :: "CompilerState \<Rightarrow> expr \<Rightarrow> string compiled"
  compileStatement :: "CompilerState \<Rightarrow> statement \<Rightarrow> string compiled"
  compileBlock :: "CompilerState \<Rightarrow> statement list \<Rightarrow> string compiled"
  getParameterData ::
    "CompilerState \<Rightarrow> string list \<Rightarrow> string list \<Rightarrow> functionNode \<Rightarrow> string list option
       \<Rightarrow> (string list \<times> string list \<times> string list) compiled"
  getPropertyAccessExpressionType :: "CompilerState \<Rightarrow> expr \<Rightarrow> PropertyCallExpType compiled"
  checkApiAccess :: "CompilerState \<Rightarrow> expr \<Rightarrow> unit compiled"
  checkNonAny :: "expr \<Rightarrow> error option"
  checkReturnsNonAny :: "functionNode \<Rightarrow> error option"
  pushPrecedingStatementToNextId :: "CompilerState \<Rightarrow> expr \<Rightarrow> string \<Rightarrow> string \<times> CompilerState"
  safeLuaIndex :: "string \<Rightarrow> string \<Rightarrow> string"

record typeUtilities =
  isIterableIterator :: "tsType \<Rightarrow> functionNode \<Rightarrow> error option"
  isTupleReturnType :: "functionNode \<Rightarrow> bool"
  isTupleReturnTypeCall :: "expr \<Rightarrow> bool"
  shouldHoist :: "functionNode \<Rightarrow> string \<Rightarrow> bool"
  inheritsFrom :: "tsType \<Rightarrow> string \<Rightarrow> bool"
  isArrayType :: "tsType \<Rightarrow> bool"
  isNumberType :: "tsType \<Rightarrow> bool"

datatype VariableDeclarationKind = Var_kind | Let_kind | Const_kind

record variableStatement =
  hasExportKeyword :: bool
  declarationKind :: VariableDeclarationKind

text \<open>
  A definition of an identifier. The source looks at the variable statement that is
  the first ancestor of that kind of the definition's node, if there is one. It does
  not look at whether the definition's node is the name of a declaration of that
  statement itself, rather than a name declared further inside it (a parameter of a
  function in an initializer, say).
\<close>

record identifierDefinition =
  enclosingStatement :: "variableStatement option"
  declaredByStatement :: bool

text \<open>
  The queries on nodes that the type checker answers: the type of an expression, the
  return type of a call expression, the definitions of an identifier.
\<close>

record typeChecker =
  getType :: "expr \<Rightarrow> tsType"
  getReturnType :: "expr \<Rightarrow> tsType"
  getDefinitions :: "expr \<Rightarrow> identifierDefinition list"

section \<open>Type guards\<close>

fun isArrayLiteralExpression :: "expr \<Rightarrow> bool" where
  "isArrayLiteralExpression (ArrayLiteralExpression es) = True"
| "isArrayLiteralExpression e = False"

fun isCallExpression :: "expr \<Rightarrow> bool" where
  "isCallExpression (CallExpression f as) = True"
| "isCallExpression e = False"

fun isNumericLiteral :: "expr \<Rightarrow> bool" where
  "isNumericLiteral (NumericLiteral t) = True"
| "isNumericLiteral e = False"

fun isIdentifier :: "expr \<Rightarrow> bool" where
  "isIdentifier (Identifier t) = True"
| "isIdentifier e = False"

fun isSuperExpression :: "expr \<Rightarrow> bool" where
  "isSuperExpression SuperExpression = True"
| "isSuperExpression e = False"

fun isReturnStatement :: "statement \<Rightarrow> bool" where
  "isReturnStatement (ReturnStatement e) = True"
| "isReturnStatement s = False"

section \<open>function.ts\<close>

fun getFirstMemberWithParameters :: "node list \<Rightarrow> functionNode option" where
  "getFirstMemberWithParameters [] = None"
| "getFirstMemberWithParameters (FunctionNode f # nodes) = Some f"
| "getFirstMemberWithParameters (n # nodes) = getFirstMemberWithParameters nodes"

text \<open>The loop that opens \<open>getReturnStrFromExpression\<close>.\<close>

fun unwrapExpression :: "expr \<Rightarrow> expr" where
  "unwrapExpression (ParenthesizedExpression e) = unwrapExpression e"
| "unwrapExpression (NonNullExpression e) = unwrapExpression e"
| "unwrapExpression e = e"

text \<open>
  Modelled from the spec: the elements of an array literal are lowered from left to
  right, each in the state that the one before it left.
\<close>

fun compileElements :: "collaborators \<Rightarrow> CompilerState \<Rightarrow> expr list \<Rightarrow> string list compiled" where
  "compileElements c st [] = Inr ([], st)"
| "compileElements c st (e # es) =
     andThen (compileExpression c st e) (\<lambda>x st1.
       andThen (compileElements c st1 es) (\<lambda>xs st2. Inr (x # xs, st2)))"

text \<open>
  Modelled from the spec: the case of \<open>compileExpression\<close> for an array literal, which
  is not among the sources. A sequential container is constructed with the target's
  literal-table syntax: \<^verbatim>\<open>{}\<close> for no element, and otherwise the lowered elements,
  comma-separated, between \<^verbatim>\<open>{ \<close> and \<^verbatim>\<open> }\<close>, the two characters that
  \<open>getReturnStrFromExpression\<close> takes off at each end. Spread elements are not modelled.
  On any other node the lowering is the parameter.
\<close>

definition compileArrayLiteralExpression ::
  "collaborators \<Rightarrow> CompilerState \<Rightarrow> expr \<Rightarrow> string compiled" where
  "compileArrayLiteralExpression c st exp =
     (case exp of
        ArrayLiteralExpression elements \<Rightarrow>
          if elements = [] then Inr (''{}'', st)
          else andThen (compileElements c st elements) (\<lambda>texts st1.
                 Inr (''{ '' @ join '', '' texts @ '' }'', st1))
      | other \<Rightarrow> compileExpression c st exp)"

text \<open>
  Lines 33 to 71. On line 59 the expression is known to be an array literal, and
  \<open>compileExpression\<close> is there its array-literal case.
\<close>

definition getReturnStrFromExpression ::
  "collaborators \<Rightarrow> typeUtilities \<Rightarrow> CompilerState \<Rightarrow> expr \<Rightarrow> functionNode option
     \<Rightarrow> string compiled" where
  "getReturnStrFromExpression c u st exp0 func =
     (let exp = unwrapExpression exp0 in
      if (case func of None \<Rightarrow> False | Some f \<Rightarrow> isTupleReturnType u f) then
        if isArrayLiteralExpression exp then
          andThen (compileArrayLiteralExpression c st exp) (\<lambda>expStr st1.
            Inr (''return '' @ substr 2 (int (length expStr) - 4) expStr @ '';'', st1))
        else if isCallExpression exp \<and> isTupleReturnTypeCall u exp then
          andThen (compileCallExpression c st exp True) (\<lambda>expStr st1.
            Inr (''return '' @ expStr @ '';'', st1))
        else
          andThen (compileExpression c st exp) (\<lambda>expStr st1.
            Inr (''return unpack('' @ expStr @ '');'', st1))
      else
        andThen (compileExpression c st exp) (\<lambda>expStr st1.
          Inr (''return '' @ expStr @ '';'', st1)))"

definition compileReturnStatement ::
  "collaborators \<Rightarrow> typeUtilities \<Rightarrow> CompilerState \<Rightarrow> returnStatement \<Rightarrow> string compiled" where
  "compileReturnStatement c u st node =
     (case returnExpression node of
        Some exp \<Rightarrow>
          andThen (getReturnStrFromExpression c u (enterPrecedingStatementContext st) exp
                     (getFirstMemberWithParameters (returnAncestors node)))
            (\<lambda>returnStr st1.
               andThen (exitPrecedingStatementContextAndJoin st1) (\<lambda>joined st2.
                 Inr (joined @ indent st2 @ returnStr @ newline, st2)))
      | None \<Rightarrow> Inr (indent st @ ''return nil;'' @ newline, st))"

definition compileFunctionBody ::
  "collaborators \<Rightarrow> typeUtilities \<Rightarrow> CompilerState \<Rightarrow> body \<Rightarrow> functionNode \<Rightarrow> string list
     \<Rightarrow> string compiled" where
  "compileFunctionBody c u st body node initializers =
     (case body of
        BlockBody statements \<Rightarrow>
          (let st1 = pushIndent st;
               result = newline @ concat (map (\<lambda>initializer. indent st1 @ initializer @ newline) initializers)
           in andThen (compileBlock c st1 statements) (\<lambda>block st2.
                let st3 = popIndent st2 in Inr (result @ block @ indent st3, st3)))
      | ExpressionBody exp \<Rightarrow>
          (let st1 = pushIndent st;
               result = newline @ concat (map (\<lambda>initializer. indent st1 @ initializer @ newline) initializers)
           in andThen (getReturnStrFromExpression c u (enterPrecedingStatementContext st1) exp (Some node))
                (\<lambda>returnStr st2.
                   andThen (exitPrecedingStatementContextAndJoin st2) (\<lambda>joined st3.
                     let st4 = popIndent st3
                     in Inr (result @ joined @ indent st3 @ returnStr @ newline @ indent st4, st4))))
      | OtherBody kindName \<Rightarrow>
          Inl (CompilerError (''Bad function body ('' @ kindName @ '')'') (FunctionNode node)
                 BadFunctionBody))"

text \<open>\<^verbatim>\<open>paramNames[0] = "self"\<close>: an assignment at index 0 of an empty array extends it.\<close>

fun setFirst :: "string \<Rightarrow> string list \<Rightarrow> string list" where
  "setFirst v [] = [v]"
| "setFirst v (x # xs) = v # xs"

text \<open>\<^verbatim>\<open>node.getParameter(name)\<close>: the first parameter of that name.\<close>

definition getParameter :: "functionNode \<Rightarrow> string \<Rightarrow> parameterDeclaration option" where
  "getParameter node name = find (\<lambda>p. parameterName p = name) (parameters node)"

text \<open>The test of \<open>giveInitialSelfParameter\<close> that sets \<open>replacedThis\<close>.\<close>

definition replacedThis :: "functionNode \<Rightarrow> bool" where
  "replacedThis node =
     (case parameters node of
        [] \<Rightarrow> False
      | p # ps \<Rightarrow>
          (case classParent node of
             None \<Rightarrow> False
           | Some classType \<Rightarrow>
               (case parameterIdentifier p of
                  None \<Rightarrow> False
                | Some (text, ty) \<Rightarrow>
                    text = ''this'' \<and> (typeText ty = ''this'' \<or> ty = classType))))"

definition giveInitialSelfParameter :: "functionNode \<Rightarrow> string list \<Rightarrow> string list" where
  "giveInitialSelfParameter node paramNames =
     (if replacedThis node then setFirst ''self'' paramNames
      else
        (case getParameter node ''this'' of
           None \<Rightarrow> ''self'' # paramNames
         | Some thisParam \<Rightarrow>
             if typeText (parameterType thisParam) = ''void'' then paramNames
             else ''self'' # paramNames))"

definition compileFunction ::
  "collaborators \<Rightarrow> typeUtilities \<Rightarrow> CompilerState \<Rightarrow> functionNode \<Rightarrow> string \<Rightarrow> body
     \<Rightarrow> string compiled" where
  "compileFunction c u st node name body =
     andThen (getParameterData c (pushIdStack st) [] [] node None)
       (\<lambda>(paramNames0, initializers, defaults) st1.
     checked (checkReturnsNonAny c node)
       (let kind = functionKind node;
            paramNames =
              (if kind = MethodDeclaration \<or> kind = GetAccessorDeclaration
                    \<or> kind = SetAccessorDeclaration
               then giveInitialSelfParameter node paramNames0 else paramNames0);
            hoisted =
              (kind = FunctionDeclaration \<and>
               (case nameNode node of None \<Rightarrow> False | Some n \<Rightarrow> shouldHoist u node n));
            st2 = (if hoisted then pushHoistStack st1 name else st1);
            prefix = (if kind = FunctionDeclaration \<and> \<not> hoisted then ''local '' else []);
            result0 = (if name = [] then [] else indent st2 @ prefix @ name @ '' = '');
            backWrap0 = (if name = [] then [] else '';'' @ newline);
            plain =
              (kind \<noteq> GetAccessorDeclaration \<and> kind \<noteq> SetAccessorDeclaration
               \<and> kind \<noteq> ConstructorDeclaration);
            async = (plain \<and> isAsync node);
            st3 = (if async then st2\<lparr>usesTSLibrary := True\<rparr> else st2);
            result1 = (if async then result0 @ ''TS.async('' else result0);
            backWrap = (if async then '')'' @ backWrap0 else backWrap0);
            generator = (plain \<and> kind \<noteq> ArrowFunction \<and> isGenerator node);
            result2 = result1 @ ''function('' @ join '', '' paramNames @ '')''
        in if generator then
             checked (isIterableIterator u (returnType node) node)
               (let st4 = pushIndent st3;
                    result3 = result2 @ newline @ indent st4 @ ''return {'' @ newline;
                    st5 = pushIndent st4;
                    result4 = result3 @ indent st5 @ ''next = coroutine.wrap(function()''
                in andThen (compileFunctionBody c u st5 body node initializers)
                     (\<lambda>bodyStr st6.
                        let result5 =
                              result4 @ bodyStr @ tab
                              @ ''repeat coroutine.yield({ done = true }) until false;'' @ newline
                              @ indent st6 @ ''end);'' @ newline;
                            st7 = popIndent st6;
                            result6 = result5 @ indent st7 @ ''};'' @ newline;
                            st8 = popIndent st7;
                            result7 = result6 @ indent st8
                        in Inr (result7 @ ''end'' @ backWrap, popIdStack st8)))
           else
             andThen (compileFunctionBody c u st3 body node initializers)
               (\<lambda>bodyStr st4. Inr (result2 @ bodyStr @ ''end'' @ backWrap, popIdStack st4))))"

fun containsSuperExpression :: "statement option \<Rightarrow> bool" where
  "containsSuperExpression (Some (ExpressionStatement (CallExpression SuperExpression args))) = True"
| "containsSuperExpression child = False"

text \<open>The loops \<^verbatim>\<open>result += compileStatement(state, statement)\<close> over statements.\<close>

fun compileStatements :: "collaborators \<Rightarrow> CompilerState \<Rightarrow> statement list \<Rightarrow> string compiled" where
  "compileStatements c st [] = Inr ([], st)"
| "compileStatements c st (s # ss) =
     andThen (compileStatement c st s) (\<lambda>x st1.
       andThen (compileStatements c st1 ss) (\<lambda>xs st2. Inr (x @ xs, st2)))"

text \<open>
  \<^verbatim>\<open>node.getStatementByKind(kind)\<close> of the syntax-tree library: the first of the body's
  own statements that has the kind. Statements nested in another statement are not
  statements of the body.
\<close>

definition getReturnStatementOfBody :: "statement list \<Rightarrow> statement option" where
  "getReturnStatementOfBody bodyStatements = find isReturnStatement bodyStatements"

text \<open>
  The first statement of a constructor body when it is a call of \<^verbatim>\<open>super\<close>, and the
  statements left for the last loop (\<open>k\<close> is then 1, and 0 otherwise).
\<close>

definition leadingSuperCall :: "statement list \<Rightarrow> statement option \<times> statement list" where
  "leadingSuperCall bodyStatements =
     (case bodyStatements of
        [] \<Rightarrow> (None, [])
      | first # rest \<Rightarrow>
          if containsSuperExpression (Some first) then (Some first, rest)
          else (None, bodyStatements))"

definition compileConstructorDeclaration ::
  "collaborators \<Rightarrow> CompilerState \<Rightarrow> string \<Rightarrow> functionNode option \<Rightarrow> string list option \<Rightarrow> bool
     \<Rightarrow> string compiled" where
  "compileConstructorDeclaration c st className node extraInitializers hasSuper =
     andThen
       (case node of
          Some n \<Rightarrow> getParameterData c (pushIdStack st) [''self''] [] n (Some [])
        | None \<Rightarrow> Inr (([''self'', ''...''], [], []), pushIdStack st))
       (\<lambda>(paramNames, initializers, defaults) st1.
          let paramStr = join '', '' paramNames;
              result0 = indent st1 @ className @ ''.constructor = function('' @ paramStr @ '')'' @ newline;
              st2 = pushIndent st1;
              extra = (case extraInitializers of None \<Rightarrow> [] | Some xs \<Rightarrow> concat xs)
          in andThen
               (case node of
                  Some n \<Rightarrow>
                    (case functionBody n of
                       None \<Rightarrow> Inl (LibraryError ''getBodyOrThrow'')
                     | Some (BlockBody bodyStatements) \<Rightarrow>
                         (let result1 = concat (map (\<lambda>initializer. indent st2 @ initializer @ newline) defaults);
                              (superCall, others) = leadingSuperCall bodyStatements
                          in andThen
                               (case superCall of
                                  Some s \<Rightarrow> compileStatement c st2 s
                                | None \<Rightarrow> Inr ([], st2))
                               (\<lambda>superStr st3.
                                  let result2 =
                                        concat (map (\<lambda>initializer. indent st3 @ initializer @ newline) initializers)
                                  in andThen (compileStatements c st3 others) (\<lambda>othersStr st4.
                                       case getReturnStatementOfBody bodyStatements of
                                         Some returnStatement \<Rightarrow>
                                           Inl (CompilerError
                                                  (''Cannot use return statement in constructor for '' @ className)
                                                  (StatementNode returnStatement) NoConstructorReturn)
                                       | None \<Rightarrow>
                                           Inr (result1 @ superStr @ result2 @ extra @ othersStr, st4))))
                     | Some other \<Rightarrow> Inr ([], st2))
                | None \<Rightarrow>
                    Inr ((if hasSuper then indent st2 @ ''super.constructor(self, ...);'' @ newline else [])
                         @ extra, st2))
               (\<lambda>bodyStr st5.
                  let result3 = result0 @ bodyStr @ indent st5 @ ''return self;'' @ newline;
                      st6 = popIdStack (popIndent st5)
                  in Inr (result3 @ indent st6 @ ''end;'' @ newline, st6)))"

section \<open>indexed.ts\<close>

text \<open>The loop of \<open>isIdentifierDefinedInExportLet\<close> over the definitions.\<close>

fun definedInExportLet :: "identifierDefinition list \<Rightarrow> bool" where
  "definedInExportLet [] = False"
| "definedInExportLet (d # defs) =
     (case enclosingStatement d of
        None \<Rightarrow> definedInExportLet defs
      | Some definition \<Rightarrow>
          if hasExportKeyword definition \<and> declarationKind definition = Let_kind then True
          else definedInExportLet defs)"

definition isIdentifierDefinedInExportLet :: "typeChecker \<Rightarrow> expr \<Rightarrow> bool" where
  "isIdentifierDefinedInExportLet q exp = definedInExportLet (getDefinitions q exp)"

text \<open>
  The condition in the words of the spec, to compare with the test of the source: the
  identifier is bound to an exported \<^verbatim>\<open>let\<close> binding when one of its definitions is the
  name of a declaration of an exported \<^verbatim>\<open>let\<close> statement.
\<close>

definition boundToExportLet :: "typeChecker \<Rightarrow> expr \<Rightarrow> bool" where
  "boundToExportLet q exp =
     list_ex
       (\<lambda>d. declaredByStatement d \<and>
            (case enclosingStatement d of
               None \<Rightarrow> False
             | Some v \<Rightarrow> hasExportKeyword v \<and> declarationKind v = Let_kind))
       (getDefinitions q exp)"

definition isDigit :: "char \<Rightarrow> bool" where
  "isDigit ch = (ch \<in> set ''0123456789'')"

text \<open>
  The regular expression \<^verbatim>\<open>/^_\d+$/\<close>: an underscore and then one or more decimal
  digits, up to the end of the string.
\<close>

definition matchesTemporary :: "string \<Rightarrow> bool" where
  "matchesTemporary s =
     (case s of [] \<Rightarrow> False | ch # ds \<Rightarrow> ch = CHR ''_'' \<and> ds \<noteq> [] \<and> list_all isDigit ds)"

definition getReadableExpressionName ::
  "collaborators \<Rightarrow> typeChecker \<Rightarrow> CompilerState \<Rightarrow> expr \<Rightarrow> string \<Rightarrow> string \<times> CompilerState" where
  "getReadableExpressionName c q st exp expStr =
     (if matchesTemporary expStr \<or> (isIdentifier exp \<and> \<not> isIdentifierDefinedInExportLet q exp)
      then (expStr, st)
      else pushPrecedingStatementToNextId c st exp expStr)"

definition quote :: string where
  "quote = [CHR 0x22]"

fun isFunctionValue :: "valueDecl \<Rightarrow> bool" where
  "isFunctionValue DeclFunctionDeclaration = True"
| "isFunctionValue DeclArrowFunction = True"
| "isFunctionValue DeclFunctionExpression = True"
| "isFunctionValue DeclMethodDeclaration = True"
| "isFunctionValue d = False"

text \<open>
  \<open>compilePropertyAccessExpression\<close> of the node \<open>exp.propertyStr\<close>. The name node of
  the access is the identifier \<open>propertyStr\<close>.
\<close>

definition compilePropertyAccessExpression ::
  "collaborators \<Rightarrow> typeChecker \<Rightarrow> CompilerState \<Rightarrow> expr \<Rightarrow> string \<Rightarrow> string compiled" where
  "compilePropertyAccessExpression c q st exp propertyStr =
     (let node = PropertyAccessExpression exp propertyStr in
      andThen (compileExpression c st exp) (\<lambda>expStr st1.
      andThen (getPropertyAccessExpressionType c st1 node) (\<lambda>propertyAccessExpressionType st2.
        if (propertyAccessExpressionType = PropertyCallExpType_String
              \<or> propertyAccessExpressionType = PropertyCallExpType_Array)
           \<and> propertyStr = ''length''
        then Inr (''(#'' @ expStr @ '')'', st2)
        else if propertyAccessExpressionType \<noteq> PropertyCallExpType_None then
          Inl (CompilerError
                 (''Invalid property access! Cannot index non-member '' @ quote @ propertyStr @ quote
                  @ '' (a roblox-ts macro function)'')
                 (ExpressionNode node) InvalidMacroIndex)
        else
          (let nameNode = Identifier propertyStr in
           andThen (checkApiAccess c st2 nameNode) (\<lambda>ok st3.
           checked (checkNonAny c exp)
          (checked (checkNonAny c nameNode)
             (let plain = Inr (expStr @ ''.'' @ propertyStr, st3) in
              if isSuperExpression exp then
                (case typeSymbol (getType q exp) of
                   None \<Rightarrow> Inl (LibraryError ''getSymbolOrThrow'')
                 | Some baseClass \<Rightarrow>
                     (let baseClassName = symbolName baseClass;
                          indexA = safeLuaIndex c (baseClassName @ ''._getters'') propertyStr;
                          indexB = safeLuaIndex c ''self'' propertyStr
                      in Inr (''('' @ indexA @ '' and function(self) return '' @ indexA
                              @ ''(self) end or function() return '' @ indexB @ '' end)(self)'', st3)))
              else
                (case typeSymbol (getType q exp) of
                   None \<Rightarrow> plain
                 | Some symbol \<Rightarrow>
                     (case valueDeclaration symbol of
                        None \<Rightarrow> plain
                      | Some valDec \<Rightarrow>
                          if isFunctionValue valDec then
                            Inl (CompilerError ''Cannot index a function value!''
                                   (ExpressionNode node) NoFunctionIndex)
                          else
                            (case valDec of
                               DeclEnumDeclaration isConstEnum members \<Rightarrow>
                                 if isConstEnum then
                                   (case map_of members propertyStr of
                                      None \<Rightarrow> Inl (LibraryError ''getMemberOrThrow'')
                                    | Some (NumberValue v) \<Rightarrow> Inr (v, st3)
                                    | Some (StringValue v) \<Rightarrow> Inr (quote @ v @ quote, st3)
                                    | Some UndefinedValue \<Rightarrow> plain)
                                 else plain
                             | DeclClassDeclaration \<Rightarrow>
                                 if propertyStr = ''prototype'' then
                                   Inl (CompilerError ''Class prototypes are not supported!''
                                          (ExpressionNode node) NoClassPrototype)
                                 else plain
                             | other \<Rightarrow> plain))))))))))"

text \<open>
  JavaScript's \<^verbatim>\<open>Number(text)\<close>, \<^verbatim>\<open>value++\<close> and \<^verbatim>\<open>value.toString()\<close> are IEEE double
  arithmetic. They are written out for a text that is a decimal natural below \<open>2 ^ 54\<close>:
  \<^verbatim>\<open>Number\<close> and \<^verbatim>\<open>++\<close> round to the nearest double, and \<^verbatim>\<open>toString\<close> prints a double of
  that range with all its digits. On any other text the parameter \<open>inexact\<close> stands for
  them.
\<close>

definition isDecimalNatural :: "string \<Rightarrow> bool" where
  "isDecimalNatural s = (s \<noteq> [] \<and> list_all isDigit s)"

definition decimalValue :: "string \<Rightarrow> int" where
  "decimalValue s = foldl (\<lambda>n ch. 10 * n + (of_char ch - 48)) 0 s"

fun decimalText :: "nat \<Rightarrow> string" where
  "decimalText n =
     (if n < 10 then [''0123456789'' ! n]
      else decimalText (n div 10) @ [''0123456789'' ! (n mod 10)])"

text \<open>
  The double nearest to a natural that is at most \<open>2 ^ 54 + 1\<close>. Every natural up to
  \<open>2 ^ 53\<close> is a double. From there to \<open>2 ^ 54\<close> the doubles are the even numbers, and
  an odd number, half-way between two of them, is rounded to the one whose significand
  is even, which is the multiple of four.
\<close>

definition roundToDouble :: "int \<Rightarrow> int" where
  "roundToDouble n =
     (if n \<le> 2 ^ 53 \<or> even n then n
      else if (n + 1) mod 4 = 0 then n + 1 else n - 1)"

definition foldedIndex :: "(string \<Rightarrow> bool \<Rightarrow> string) \<Rightarrow> string \<Rightarrow> bool \<Rightarrow> string" where
  "foldedIndex inexact literal addOne =
     (if isDecimalNatural literal \<and> decimalValue literal < 2 ^ 54
      then
        (let number = roundToDouble (decimalValue literal);
             incremented = (if addOne then roundToDouble (number + 1) else number)
         in decimalText (nat incremented))
      else inexact literal addOne)"

text \<open>Lines 153 to 163 of \<open>compileElementAccessExpression\<close>: whether one is added.\<close>

definition elementAccessAddOne :: "typeUtilities \<Rightarrow> typeChecker \<Rightarrow> expr \<Rightarrow> expr \<Rightarrow> bool" where
  "elementAccessAddOne u q expNode argExp =
     (isNumberType u (getType q argExp) \<and>
      (isArrayType u (getType q expNode) \<or>
       (isCallExpression expNode \<and>
        (isTupleReturnTypeCall u expNode \<or> isArrayType u (getReturnType q expNode)))))"

text \<open>Lines 165 to 178: the text of the index, \<open>argExpStr\<close>.\<close>

definition elementAccessIndex ::
  "collaborators \<Rightarrow> (string \<Rightarrow> bool \<Rightarrow> string) \<Rightarrow> CompilerState \<Rightarrow> expr \<Rightarrow> bool \<Rightarrow> string compiled" where
  "elementAccessIndex c inexact st argExp addOne =
     (if isNumericLiteral argExp
         \<and> (case argExp of NumericLiteral text \<Rightarrow> CHR ''e'' \<notin> set text | other \<Rightarrow> False)
      then
        andThen (compileNumericLiteral c st argExp) (\<lambda>literal st1.
          Inr (foldedIndex inexact literal addOne, st1))
      else
        andThen (compileExpression c st argExp) (\<lambda>compiled st1.
          Inr (compiled @ (if addOne then '' + 1'' else []), st1)))"

definition compileElementAccessExpression ::
  "collaborators \<Rightarrow> typeUtilities \<Rightarrow> typeChecker \<Rightarrow> (string \<Rightarrow> bool \<Rightarrow> string) \<Rightarrow> CompilerState
     \<Rightarrow> expr \<Rightarrow> expr option \<Rightarrow> string compiled" where
  "compileElementAccessExpression c u q inexact st expNode argument =
     (case argument of
        None \<Rightarrow> Inl (LibraryError ''getArgumentExpressionOrThrow'')
      | Some argExp \<Rightarrow>
          andThen (elementAccessIndex c inexact st argExp (elementAccessAddOne u q expNode argExp))
            (\<lambda>argExpStr st1.
               if isCallExpression expNode \<and> isTupleReturnTypeCall u expNode then
                 andThen (compileCallExpression c st1 expNode True) (\<lambda>expStr st2.
                   checked (checkNonAny c expNode)
                  (checked (checkNonAny c argExp)
                     (if argExpStr = ''1'' then Inr (''('' @ expStr @ '')'', st2)
                      else Inr (''(select('' @ argExpStr @ '', '' @ expStr @ ''))'', st2))))
               else
                 andThen (compileExpression c st1 expNode) (\<lambda>expStr st2.
                   checked (checkNonAny c expNode)
                  (checked (checkNonAny c argExp)
                     (let isArrayLiteral =
                            (isArrayLiteralExpression expNode \<or>
                             (case expNode of
                                NewExpression subExpNode args \<Rightarrow>
                                  typeIsObject (getType q subExpNode)
                                  \<and> inheritsFrom u (getType q subExpNode) ''ArrayConstructor''
                              | other \<Rightarrow> False))
                      in if isArrayLiteral then Inr (''('' @ expStr @ '')['' @ argExpStr @ '']'', st2)
                         else Inr (expStr @ ''['' @ argExpStr @ '']'', st2))))))"

section \<open>TSTransformer/util/transformParameters.ts\<close>

text \<open>
  The Lua syntax tree, as far as \<open>transformParameters\<close> builds it. An if statement has
  a condition, its statements and its else body; a binary expression a left operand, an
  operator and a right operand; an assignment and a variable declaration a left and a
  right side.
\<close>

datatype luaExpression =
    LuaIdentifier string
  | LuaNil
  | LuaBinaryExpression luaExpression string luaExpression
  | LuaArray "luaExpression list"
  | LuaVarArgsLiteral
  | LuaOtherExpression string

datatype luaStatement =
    LuaIfStatement luaExpression "luaStatement list" "luaStatement list"
  | LuaAssignment luaExpression luaExpression
  | LuaVariableDeclaration luaExpression luaExpression
  | LuaOtherStatement string

datatype bindingName = BindingIdentifier string | BindingPattern

record tsParameter =
  tsName :: bindingName
  dotDotDotToken :: bool
  tsInitializer :: "expr option"

text \<open>
  The transform state \<open>'s\<close> and the two functions below are not among the sources.
  \<open>transformExpression\<close> returns the expression, the statements it hands to
  \<^verbatim>\<open>state.prereq\<close> while it runs, in order, and the state it leaves.
\<close>

record 's transformer =
  transformExpression :: "'s \<Rightarrow> expr \<Rightarrow> error + luaExpression \<times> luaStatement list \<times> 's"
  transformIdentifierDefined :: "'s \<Rightarrow> string \<Rightarrow> error + luaExpression \<times> 's"

text \<open>
  Modelled from the spec: \<^verbatim>\<open>state.statement(callback)\<close> is the scoped side-effect buffer
  of the spec. It returns, in order, the statements handed to \<^verbatim>\<open>state.prereq\<close> while
  the callback runs: those of \<open>transformExpression\<close>, then the assignment. These two
  methods of \<open>TransformState\<close> are the only part that is not among the sources; the
  rest of \<open>transformParamInitializer\<close> is lines 8 to 25 of the source.
\<close>

definition transformParamInitializer ::
  "'s transformer \<Rightarrow> 's \<Rightarrow> luaExpression \<Rightarrow> expr \<Rightarrow> error + luaStatement \<times> 's" where
  "transformParamInitializer t st paramId init =
     (case transformExpression t st init of
        Inl e \<Rightarrow> Inl e
      | Inr (right, prereqs, st1) \<Rightarrow>
          Inr (LuaIfStatement (LuaBinaryExpression paramId ''=='' LuaNil)
                 (prereqs @ [LuaAssignment paramId right]) [],
               st1))"

record transformed =
  parametersOf :: "luaExpression list"
  statementsOf :: "luaStatement list"
  hasDotDotDot :: bool

text \<open>The \<^verbatim>\<open>for\<close> loop of \<open>transformParameters\<close>, on the three results it fills.\<close>

fun transformParametersFrom ::
  "'s transformer \<Rightarrow> 's \<Rightarrow> tsParameter list \<Rightarrow> transformed \<Rightarrow> error + transformed \<times> 's" where
  "transformParametersFrom t st [] acc = Inr (acc, st)"
| "transformParametersFrom t st (tsParam # tsParams) acc =
     (case tsName tsParam of
        BindingPattern \<Rightarrow> Inl (AssertionError ''Not implemented'')
      | BindingIdentifier x \<Rightarrow>
          (case transformIdentifierDefined t st x of
             Inl e \<Rightarrow> Inl e
           | Inr (paramId, st1) \<Rightarrow>
               (let acc1 =
                      (if dotDotDotToken tsParam then acc\<lparr>hasDotDotDot := True\<rparr>
                       else acc\<lparr>parametersOf := parametersOf acc @ [paramId]\<rparr>);
                    paramStatements =
                      (if dotDotDotToken tsParam
                       then [LuaVariableDeclaration paramId (LuaArray [LuaVarArgsLiteral])]
                       else [])
                in case tsInitializer tsParam of
                     None \<Rightarrow>
                       transformParametersFrom t st1 tsParams
                         (acc1\<lparr>statementsOf := statementsOf acc1 @ paramStatements\<rparr>)
                   | Some init \<Rightarrow>
                       (case transformParamInitializer t st1 paramId init of
                          Inl e \<Rightarrow> Inl e
                        | Inr (ifStatement, st2) \<Rightarrow>
                            transformParametersFrom t st2 tsParams
                              (acc1\<lparr>statementsOf :=
                                      statementsOf acc1 @ paramStatements @ [ifStatement]\<rparr>)))))"

definition transformParameters ::
  "'s transformer \<Rightarrow> 's \<Rightarrow> tsParameter list \<Rightarrow> error + transformed \<times> 's" where
  "transformParameters t st tsParams =
     transformParametersFrom t st tsParams
       \<lparr>parametersOf = [], statementsOf = [], hasDotDotDot = False\<rparr>"

section \<open>Sample collaborators\<close>

text \<open>
  A small hand-built instance of the collaborators and of the type checker's answers,
  on which the lowering functions are run at concrete programs. It prints an expression
  back as source text, knows the array \<open>arr\<close>, the number \<open>i\<close>, the const enum
  \<open>Color\<close> and the tuple-returning function \<open>pair\<close>, and never reports an error. Its
  module holds \<^verbatim>\<open>export let counter = 0;\<close> and \<^verbatim>\<open>export let g = (n: number) => n + 1;\<close>.
\<close>

fun sampleText :: "expr \<Rightarrow> string" where
  "sampleText (Identifier x) = x"
| "sampleText (NumericLiteral t) = t"
| "sampleText (ParenthesizedExpression e) = ''('' @ sampleText e @ '')''"
| "sampleText (NonNullExpression e) = sampleText e"
| "sampleText (ArrayLiteralExpression es) =
     (if es = [] then ''{}'' else ''{ '' @ join '', '' (map sampleText es) @ '' }'')"
| "sampleText (CallExpression f as) = sampleText f @ ''('' @ join '', '' (map sampleText as) @ '')''"
| "sampleText (NewExpression f as) = sampleText f @ ''.new('' @ join '', '' (map sampleText as) @ '')''"
| "sampleText SuperExpression = ''super''"
| "sampleText (PropertyAccessExpression e p) = sampleText e @ ''.'' @ p"
| "sampleText (ElementAccessExpression e a) =
     sampleText e @ ''['' @ (case a of None \<Rightarrow> [] | Some i \<Rightarrow> sampleText i) @ '']''"
| "sampleText (OtherExpression t) = t"

fun sampleStatementText :: "statement \<Rightarrow> string" where
  "sampleStatementText (ExpressionStatement e) = sampleText e @ '';''"
| "sampleStatementText (ReturnStatement None) = ''return nil;''"
| "sampleStatementText (ReturnStatement (Some e)) = ''return '' @ sampleText e @ '';''"
| "sampleStatementText (IfStatement e thenStatements elseStatements) =
     ''if '' @ sampleText e @ '' then '' @ join '' '' (map sampleStatementText thenStatements)
     @ '' end;''"
| "sampleStatementText (OtherStatement t) = t"

definition sampleState :: CompilerState where
  "sampleState =
     \<lparr>indent = [], idStack = [0], hoistStack = [], precedingStatementContexts = [],
      usesTSLibrary = False\<rparr>"

text \<open>
  The sample extraction names the temporary after the sum of the id counters, counts the
  innermost counter up and appends the declaration to the innermost buffer.
\<close>

definition samplePushToNextId :: "CompilerState \<Rightarrow> expr \<Rightarrow> string \<Rightarrow> string \<times> CompilerState" where
  "samplePushToNextId st e expStr =
     (let name = ''_'' @ decimalText (sum_list (idStack st));
          declared = indent st @ ''local '' @ name @ '' = '' @ expStr @ '';'' @ newline
      in (name,
          st\<lparr>idStack := butlast (idStack st) @ [Suc (last (idStack st))],
             precedingStatementContexts :=
               butlast (precedingStatementContexts st)
               @ [last (precedingStatementContexts st) @ [declared]]\<rparr>))"

definition sampleCollaborators :: collaborators where
  "sampleCollaborators =
     \<lparr>compileExpression = (\<lambda>st e. Inr (sampleText e, st)),
      compileCallExpression = (\<lambda>st e direct. Inr (sampleText e, st)),
      compileNumericLiteral = (\<lambda>st e. Inr (sampleText e, st)),
      compileStatement = (\<lambda>st s. Inr (indent st @ sampleStatementText s @ newline, st)),
      compileBlock =
        (\<lambda>st ss. Inr (concat (map (\<lambda>s. indent st @ sampleStatementText s @ newline) ss), st)),
      getParameterData =
        (\<lambda>st paramNames initializers f defaults.
           Inr ((paramNames @ map parameterName (parameters f), initializers, []), st)),
      getPropertyAccessExpressionType =
        (\<lambda>st e. Inr (if e = PropertyAccessExpression (Identifier ''arr'') ''push''
                        then PropertyCallExpType_Array else PropertyCallExpType_None, st)),
      checkApiAccess = (\<lambda>st e. Inr ((), st)),
      checkNonAny = (\<lambda>e. None),
      checkReturnsNonAny = (\<lambda>f. None),
      pushPrecedingStatementToNextId = samplePushToNextId,
      safeLuaIndex = (\<lambda>object property. object @ ''.'' @ property)\<rparr>"

definition sampleType :: "string \<Rightarrow> tsType" where
  "sampleType text =
     \<lparr>typeId = length text, typeText = text, typeIsObject = False, typeSymbol = None\<rparr>"

definition colorEnum :: tsType where
  "colorEnum =
     \<lparr>typeId = 100, typeText = ''typeof Color'', typeIsObject = True,
      typeSymbol =
        Some \<lparr>symbolName = ''Color'',
              valueDeclaration =
                Some (DeclEnumDeclaration True
                        [(''Red'', NumberValue ''0''), (''Name'', StringValue ''color'')])\<rparr>\<rparr>"

definition sampleTypeUtilities :: typeUtilities where
  "sampleTypeUtilities =
     \<lparr>isIterableIterator = (\<lambda>ty f. None),
      isTupleReturnType = (\<lambda>f. typeText (returnType f) = ''[number, number]''),
      isTupleReturnTypeCall = (\<lambda>e. e = CallExpression (Identifier ''pair'') []),
      shouldHoist = (\<lambda>f n. False),
      inheritsFrom = (\<lambda>ty n. False),
      isArrayType = (\<lambda>ty. typeText ty = ''number[]''),
      isNumberType = (\<lambda>ty. typeText ty = ''number'')\<rparr>"

definition sampleTypeChecker :: typeChecker where
  "sampleTypeChecker =
     \<lparr>getType =
        (\<lambda>e. case e of
               Identifier x \<Rightarrow>
                 if x = ''arr'' then sampleType ''number[]''
                 else if x = ''i'' then sampleType ''number''
                 else if x = ''Color'' then colorEnum
                 else sampleType ''unknown''
             | NumericLiteral t \<Rightarrow> sampleType ''number''
             | other \<Rightarrow> sampleType ''unknown''),
      getReturnType = (\<lambda>e. sampleType ''unknown''),
      getDefinitions =
        (\<lambda>e. if e = Identifier ''counter''
              then [\<lparr>enclosingStatement =
                        Some \<lparr>hasExportKeyword = True, declarationKind = Let_kind\<rparr>,
                      declaredByStatement = True\<rparr>]
              else if e = Identifier ''n''
              then [\<lparr>enclosingStatement =
                        Some \<lparr>hasExportKeyword = True, declarationKind = Let_kind\<rparr>,
                      declaredByStatement = False\<rparr>]
              else [\<lparr>enclosingStatement = None, declaredByStatement = False\<rparr>])\<rparr>"

text \<open>What the sample gives for an index that is not a decimal natural below \<open>2 ^ 54\<close>.\<close>

definition sampleInexact :: "string \<Rightarrow> bool \<Rightarrow> string" where
  "sampleInexact literal addOne = ''NaN''"

text \<open>A function-like node of a class \<open>Point\<close>, with its kind, parameters and return type.\<close>

definition sampleFunction :: "functionKind \<Rightarrow> parameterDeclaration list \<Rightarrow> string \<Rightarrow> functionNode" where
  "sampleFunction kind ps ret =
     \<lparr>functionKind = kind, parameters = ps, isAsync = False, isGenerator = False,
      nameNode = None, returnType = sampleType ret, classParent = Some (sampleType ''Point''),
      functionBody = None\<rparr>"

definition sampleParameter :: "string \<Rightarrow> string \<Rightarrow> parameterDeclaration" where
  "sampleParameter x ty =
     \<lparr>parameterName = x, parameterType = sampleType ty,
      parameterIdentifier = Some (x, sampleType ty)\<rparr>"

text \<open>
  A sample transformer: an identifier becomes the Lua identifier of the same name, an
  expression its source text, and no prerequisite statement is emitted.
\<close>

definition sampleTransformer :: "nat transformer" where
  "sampleTransformer =
     \<lparr>transformExpression = (\<lambda>st e. Inr (LuaOtherExpression (sampleText e), [], st)),
      transformIdentifierDefined = (\<lambda>st x. Inr (LuaIdentifier x, st))\<rparr>"

text \<open>
  The constructor of \<^verbatim>\<open>class A { constructor(done: boolean) { if (done) { return; } } }\<close>.
\<close>

definition constructorWithNestedReturn :: functionNode where
  "constructorWithNestedReturn =
     \<lparr>functionKind = ConstructorDeclaration,
      parameters = [sampleParameter ''done'' ''boolean''], isAsync = False,
      isGenerator = False, nameNode = None, returnType = sampleType ''A'',
      classParent = Some (sampleType ''A''),
      functionBody =
        Some (BlockBody [IfStatement (Identifier ''done'') [ReturnStatement None] []])\<rparr>"

section \<open>Properties\<close>

subsection \<open>Sequencing\<close>

lemma andThen_Inr [simp]: "andThen (Inr (x, st)) f = f x st"
  by (simp add: andThen_def)

lemma andThen_Inl [simp]: "andThen (Inl e) f = Inl e"
  by (simp add: andThen_def)

lemma checked_None [simp]: "checked None k = k"
  by (simp add: checked_def)

lemma checked_Some [simp]: "checked (Some e) k = Inl e"
  by (simp add: checked_def)

lemma andThen_eq_Inr:
  "andThen r f = Inr y \<longleftrightarrow> (\<exists>x st. r = Inr (x, st) \<and> f x st = Inr y)"
  by (cases r) (auto simp add: andThen_def)

lemma checked_eq_Inr: "checked r k = Inr y \<longleftrightarrow> r = None \<and> k = Inr y"
  by (cases r) (simp_all add: checked_def)

subsection \<open>Return statements\<close>

text \<open>
  Claim C6. A return statement with no expression lowers to the statement
  \<^verbatim>\<open>return nil;\<close> at the current indentation, ended by a newline, and leaves the compiler
  state as it was. The spec calls \<^verbatim>\<open>nil\<close> the target's native "no value" literal.
\<close>

theorem compileReturnStatement_bare:
  "returnExpression node = None \<Longrightarrow>
   compileReturnStatement c u st node = Inr (indent st @ ''return nil;'' @ newline, st)"
  by (simp add: compileReturnStatement_def)

theorem compileReturnStatement_bare_witness:
  "returnExpression \<lparr>returnExpression = None, returnAncestors = []\<rparr> = None \<and>
   compileReturnStatement sampleCollaborators sampleTypeUtilities (pushIndent sampleState)
     \<lparr>returnExpression = None, returnAncestors = []\<rparr>
   = Inr (tab @ ''return nil;'' @ newline, pushIndent sampleState)"
  using compileReturnStatement_bare
    [of "\<lparr>returnExpression = None, returnAncestors = []\<rparr>" sampleCollaborators sampleTypeUtilities
        "pushIndent sampleState"]
  by (simp add: pushIndent_def sampleState_def)


lemma compileElements_Nil_iff:
  "compileElements c st es = Inr (texts, st1) \<Longrightarrow> (es = []) = (texts = [])"
  by (cases es) (auto simp add: andThen_eq_Inr)

lemma substr_table:
  "substr 2 (int (length (''{ '' @ elements @ '' }'')) - 4) (''{ '' @ elements @ '' }'') = elements"
  by (simp add: substr_def)





subsection \<open>The receiver parameter\<close>

lemma replacedThis_iff:
  "replacedThis node \<longleftrightarrow>
     (\<exists>p ps classType ty.
        parameters node = p # ps \<and> classParent node = Some classType \<and>
        parameterIdentifier p = Some (''this'', ty) \<and> (typeText ty = ''this'' \<or> ty = classType))"
  by (auto simp add: replacedThis_def split: list.splits option.splits)

lemma join_Cons: "join sep (x # xs) = x @ (if xs = [] then [] else sep @ join sep xs)"
  by (cases xs) simp_all

text \<open>
  The parameter list that \<open>compileFunction\<close> emits for a method, a getter or a setter
  is the list of \<open>getParameterData\<close> after \<open>giveInitialSelfParameter\<close>.
\<close>

lemma compileFunction_method_parameters:
  assumes kind: "functionKind node = MethodDeclaration \<or> functionKind node = GetAccessorDeclaration
                 \<or> functionKind node = SetAccessorDeclaration"
      and params: "getParameterData c (pushIdStack st) [] [] node None = Inr ((paramNames, ins, defs), st1)"
      and result: "compileFunction c u st node name body = Inr (text, st2)"
  shows "\<exists>rest. text =
           (if name = [] then [] else indent st1 @ name @ '' = '')
           @ (if functionKind node = MethodDeclaration \<and> isAsync node then ''TS.async('' else [])
           @ ''function('' @ join '', '' (giveInitialSelfParameter node paramNames) @ '')'' @ rest"
proof -
  have nofd: "functionKind node \<noteq> FunctionDeclaration"
    using kind by auto
  have async: "(functionKind node \<noteq> GetAccessorDeclaration \<and> functionKind node \<noteq> SetAccessorDeclaration
         \<and> functionKind node \<noteq> ConstructorDeclaration \<and> isAsync node)
        = (functionKind node = MethodDeclaration \<and> isAsync node)"
    using kind by auto
  show ?thesis
    using result kind nofd
    unfolding compileFunction_def params andThen_Inr case_prod_conv Let_def checked_eq_Inr async
    by (auto simp add: andThen_eq_Inr checked_eq_Inr split: if_splits)
qed

lemma constructor_without_node:
  "\<exists>rest st1. compileConstructorDeclaration c st className None extraInitializers hasSuper
     = Inr (indent st @ className @ ''.constructor = function(self, ...)'' @ newline @ rest, st1)"
  by (simp add: compileConstructorDeclaration_def Let_def pushIdStack_def)

lemma constructor_with_node:
  assumes params: "getParameterData c (pushIdStack st) [''self''] [] n (Some [])
                   = Inr ((''self'' # names, ins, defs), st1)"
      and result: "compileConstructorDeclaration c st className (Some n) extraInitializers hasSuper
                   = Inr (text, st2)"
  shows "\<exists>rest. text = indent st1 @ className @ ''.constructor = function(self'' @ rest"
  using result
  unfolding compileConstructorDeclaration_def option.case params andThen_Inr case_prod_conv Let_def
  by (auto simp add: andThen_eq_Inr join_Cons)

text \<open>
  Claim C3. \<open>replacedThis\<close> holds exactly when the first declared parameter has the
  identifier \<^verbatim>\<open>this\<close> and its type is the type \<^verbatim>\<open>this\<close> or the type of the enclosing
  class. Then the first emitted parameter name is overwritten by \<^verbatim>\<open>self\<close> and no name is
  added. Otherwise \<^verbatim>\<open>self\<close> is prepended, unless the node declares a parameter \<^verbatim>\<open>this\<close>
  of type \<^verbatim>\<open>void\<close>, in which case the names stay as they are. A method, a getter and
  a setter are emitted with the parameter list so obtained. A constructor is emitted
  with \<^verbatim>\<open>self\<close> as its first parameter: with no constructor node the list is
  \<^verbatim>\<open>self, ...\<close>, and with one it is the list \<open>getParameterData\<close> returns for the
  initial list \<^verbatim>\<open>["self"]\<close>, whose head it leaves in place.
\<close>

theorem giveInitialSelfParameter_receiver:
  "(replacedThis node \<longleftrightarrow>
      (\<exists>p ps classType ty.
         parameters node = p # ps \<and> classParent node = Some classType \<and>
         parameterIdentifier p = Some (''this'', ty) \<and> (typeText ty = ''this'' \<or> ty = classType)))
   \<and> (replacedThis node \<longrightarrow>
        giveInitialSelfParameter node (x # paramNames) = ''self'' # paramNames
        \<and> giveInitialSelfParameter node [] = [''self''])
   \<and> (\<not> replacedThis node \<longrightarrow>
        (getParameter node ''this'' = None
         \<or> (\<exists>thisParam. getParameter node ''this'' = Some thisParam
                \<and> typeText (parameterType thisParam) \<noteq> ''void'')) \<longrightarrow>
        giveInitialSelfParameter node paramNames = ''self'' # paramNames)
   \<and> (\<not> replacedThis node \<longrightarrow>
        getParameter node ''this'' = Some thisParam \<longrightarrow>
        typeText (parameterType thisParam) = ''void'' \<longrightarrow>
        giveInitialSelfParameter node paramNames = paramNames)
   \<and> (functionKind node = MethodDeclaration \<or> functionKind node = GetAccessorDeclaration
          \<or> functionKind node = SetAccessorDeclaration \<longrightarrow>
        getParameterData c (pushIdStack st) [] [] node None = Inr ((paramNames, ins, defs), st1) \<longrightarrow>
        compileFunction c u st node name body = Inr (text, st2) \<longrightarrow>
        (\<exists>rest. text =
           (if name = [] then [] else indent st1 @ name @ '' = '')
           @ (if functionKind node = MethodDeclaration \<and> isAsync node then ''TS.async('' else [])
           @ ''function('' @ join '', '' (giveInitialSelfParameter node paramNames) @ '')'' @ rest))
   \<and> (\<exists>rest st3.
         compileConstructorDeclaration c st className None extraInitializers hasSuper
         = Inr (indent st @ className @ ''.constructor = function(self, ...)'' @ newline @ rest, st3))
   \<and> (getParameterData c (pushIdStack st) [''self''] [] node (Some [])
          = Inr ((''self'' # paramNames, ins, defs), st1) \<longrightarrow>
        compileConstructorDeclaration c st className (Some node) extraInitializers hasSuper
          = Inr (text, st2) \<longrightarrow>
        (\<exists>rest. text = indent st1 @ className @ ''.constructor = function(self'' @ rest))"
proof -
  have renamed: "replacedThis node \<longrightarrow>
        giveInitialSelfParameter node (x # paramNames) = ''self'' # paramNames
        \<and> giveInitialSelfParameter node [] = [''self'']"
    by (simp add: giveInitialSelfParameter_def)
  have prepended: "\<not> replacedThis node \<longrightarrow>
        (getParameter node ''this'' = None
         \<or> (\<exists>thisParam. getParameter node ''this'' = Some thisParam
                \<and> typeText (parameterType thisParam) \<noteq> ''void'')) \<longrightarrow>
        giveInitialSelfParameter node paramNames = ''self'' # paramNames"
    by (auto simp add: giveInitialSelfParameter_def)
  have kept: "\<not> replacedThis node \<longrightarrow>
        getParameter node ''this'' = Some thisParam \<longrightarrow>
        typeText (parameterType thisParam) = ''void'' \<longrightarrow>
        giveInitialSelfParameter node paramNames = paramNames"
    by (simp add: giveInitialSelfParameter_def)
  show ?thesis
    using replacedThis_iff [of node] renamed prepended kept
      compileFunction_method_parameters [of node c st paramNames ins defs st1 u name body "text" st2]
      constructor_without_node [of c st className extraInitializers hasSuper]
      constructor_with_node [of c st node paramNames ins defs st1 className extraInitializers hasSuper "text" st2]
    by blast
qed

theorem giveInitialSelfParameter_receiver_witness:
  "giveInitialSelfParameter
     (sampleFunction MethodDeclaration
        [sampleParameter ''this'' ''Point'', sampleParameter ''x'' ''number''] ''void'')
     [''this'', ''x''] = [''self'', ''x'']
   \<and> giveInitialSelfParameter
       (sampleFunction MethodDeclaration [sampleParameter ''x'' ''number''] ''void'') [''x'']
     = [''self'', ''x'']
   \<and> giveInitialSelfParameter
       (sampleFunction MethodDeclaration
          [sampleParameter ''this'' ''void'', sampleParameter ''x'' ''number''] ''void'')
       [''x''] = [''x'']
   \<and> compileFunction sampleCollaborators sampleTypeUtilities sampleState
       (sampleFunction MethodDeclaration [sampleParameter ''x'' ''number''] ''void'')
       ''Point.move'' (BlockBody [])
     = Inr (''Point.move = function(self, x)'' @ newline @ ''end;'' @ newline, sampleState)
   \<and> compileConstructorDeclaration sampleCollaborators sampleState ''Point'' None None False
     = Inr (''Point.constructor = function(self, ...)'' @ newline @ tab @ ''return self;''
            @ newline @ ''end;'' @ newline, sampleState)"
proof -
  let ?renamed =
    "sampleFunction MethodDeclaration
       [sampleParameter ''this'' ''Point'', sampleParameter ''x'' ''number''] ''void''"
  let ?plain = "sampleFunction MethodDeclaration [sampleParameter ''x'' ''number''] ''void''"
  let ?unused =
    "sampleFunction MethodDeclaration
       [sampleParameter ''this'' ''void'', sampleParameter ''x'' ''number''] ''void''"
  have r1: "replacedThis ?renamed"
    by (simp add: replacedThis_def sampleFunction_def sampleParameter_def)
  have r2: "\<not> replacedThis ?plain" "getParameter ?plain ''this'' = None"
    by (simp_all add: replacedThis_def getParameter_def sampleFunction_def sampleParameter_def)
  have r3: "\<not> replacedThis ?unused"
    "getParameter ?unused ''this'' = Some (sampleParameter ''this'' ''void'')"
    "typeText (parameterType (sampleParameter ''this'' ''void'')) = ''void''"
    by (simp_all add: replacedThis_def getParameter_def sampleFunction_def sampleParameter_def
          sampleType_def)
  have c1: "giveInitialSelfParameter ?renamed [''this'', ''x''] = [''self'', ''x'']"
    using giveInitialSelfParameter_receiver [where node = ?renamed and x = "''this''"
        and paramNames = "[''x'']"] r1
    by blast
  have c2: "giveInitialSelfParameter ?plain [''x''] = [''self'', ''x'']"
    using giveInitialSelfParameter_receiver [where node = ?plain and paramNames = "[''x'']"] r2
    by blast
  have c3: "giveInitialSelfParameter ?unused [''x''] = [''x'']"
    using giveInitialSelfParameter_receiver [where node = ?unused and paramNames = "[''x'']"
        and thisParam = "sampleParameter ''this'' ''void''"] r3
    by blast
  have c4: "compileFunction sampleCollaborators sampleTypeUtilities sampleState ?plain
       ''Point.move'' (BlockBody [])
     = Inr (''Point.move = function(self, x)'' @ newline @ ''end;'' @ newline, sampleState)"
    by (simp add: compileFunction_def compileFunctionBody_def sampleCollaborators_def
          sampleTypeUtilities_def sampleState_def sampleFunction_def sampleParameter_def
          pushIdStack_def popIdStack_def pushIndent_def popIndent_def tab_def
          c2 [unfolded sampleFunction_def sampleParameter_def] Let_def)
  have c5: "compileConstructorDeclaration sampleCollaborators sampleState ''Point'' None None False
     = Inr (''Point.constructor = function(self, ...)'' @ newline @ tab @ ''return self;''
            @ newline @ ''end;'' @ newline, sampleState)"
    by (simp add: compileConstructorDeclaration_def sampleState_def
          pushIdStack_def popIdStack_def pushIndent_def popIndent_def Let_def tab_def)
  show ?thesis
    using c1 c2 c3 c4 c5 by blast
qed

subsection \<open>Property access\<close>

text \<open>
  The three diagnostics of \<open>compilePropertyAccessExpression\<close>, each raised with its
  error kind and the property access node, once the steps before it have passed.
\<close>

lemma compilePropertyAccessExpression_macro:
  assumes "compileExpression c st exp = Inr (expStr, st1)"
      and "getPropertyAccessExpressionType c st1 (PropertyAccessExpression exp propertyStr)
           = Inr (ty, st2)"
      and "ty \<noteq> PropertyCallExpType_None"
      and "\<not> ((ty = PropertyCallExpType_String \<or> ty = PropertyCallExpType_Array) \<and> propertyStr = ''length'')"
  shows "compilePropertyAccessExpression c q st exp propertyStr
         = Inl (CompilerError
                 (''Invalid property access! Cannot index non-member '' @ quote @ propertyStr @ quote
                  @ '' (a roblox-ts macro function)'')
                 (ExpressionNode (PropertyAccessExpression exp propertyStr)) InvalidMacroIndex)"
  using assms by (simp add: compilePropertyAccessExpression_def Let_def)

lemma compilePropertyAccessExpression_function:
  assumes "compileExpression c st exp = Inr (expStr, st1)"
      and "getPropertyAccessExpressionType c st1 (PropertyAccessExpression exp propertyStr)
           = Inr (PropertyCallExpType_None, st2)"
      and "checkApiAccess c st2 (Identifier propertyStr) = Inr ((), st3)"
      and "checkNonAny c exp = None" and "checkNonAny c (Identifier propertyStr) = None"
      and "\<not> isSuperExpression exp"
      and "typeSymbol (getType q exp) = Some symbol"
      and "valueDeclaration symbol = Some valDec"
      and "isFunctionValue valDec"
  shows "compilePropertyAccessExpression c q st exp propertyStr
         = Inl (CompilerError ''Cannot index a function value!''
                 (ExpressionNode (PropertyAccessExpression exp propertyStr)) NoFunctionIndex)"
  using assms by (simp add: compilePropertyAccessExpression_def Let_def)

lemma compilePropertyAccessExpression_prototype:
  assumes "compileExpression c st exp = Inr (expStr, st1)"
      and "getPropertyAccessExpressionType c st1 (PropertyAccessExpression exp ''prototype'')
           = Inr (PropertyCallExpType_None, st2)"
      and "checkApiAccess c st2 (Identifier ''prototype'') = Inr ((), st3)"
      and "checkNonAny c exp = None" and "checkNonAny c (Identifier ''prototype'') = None"
      and "\<not> isSuperExpression exp"
      and "typeSymbol (getType q exp) = Some symbol"
      and "valueDeclaration symbol = Some DeclClassDeclaration"
  shows "compilePropertyAccessExpression c q st exp ''prototype''
         = Inl (CompilerError ''Class prototypes are not supported!''
                 (ExpressionNode (PropertyAccessExpression exp ''prototype'')) NoClassPrototype)"
  using assms by (simp add: compilePropertyAccessExpression_def Let_def)

text \<open>
  Claim C7. When the type symbol of the base has a const enum declaration as its value
  declaration and the member named by the access has a number or a string as its value,
  the access lowers to that value alone: the number's text, or the string between
  double quotes. The text of the base and the member name are not emitted. The premises
  say that the steps before the fold pass: the base compiles, the access is not
  classified as a macro member, the checks report nothing, and the base is not
  \<^verbatim>\<open>super\<close>.
\<close>

theorem compilePropertyAccessExpression_constEnum:
  assumes "compileExpression c st exp = Inr (expStr, st1)"
      and "getPropertyAccessExpressionType c st1 (PropertyAccessExpression exp propertyStr)
           = Inr (PropertyCallExpType_None, st2)"
      and "checkApiAccess c st2 (Identifier propertyStr) = Inr ((), st3)"
      and "checkNonAny c exp = None" and "checkNonAny c (Identifier propertyStr) = None"
      and "\<not> isSuperExpression exp"
      and "typeSymbol (getType q exp) = Some enum"
      and "valueDeclaration enum = Some (DeclEnumDeclaration True members)"
  shows "(map_of members propertyStr = Some (NumberValue number) \<longrightarrow>
            compilePropertyAccessExpression c q st exp propertyStr = Inr (number, st3))
       \<and> (map_of members propertyStr = Some (StringValue string) \<longrightarrow>
            compilePropertyAccessExpression c q st exp propertyStr
            = Inr (quote @ string @ quote, st3))"
  using assms by (simp add: compilePropertyAccessExpression_def Let_def)

theorem compilePropertyAccessExpression_constEnum_witness:
  "compilePropertyAccessExpression sampleCollaborators sampleTypeChecker sampleState
     (Identifier ''Color'') ''Red'' = Inr (''0'', sampleState)
   \<and> compilePropertyAccessExpression sampleCollaborators sampleTypeChecker sampleState
       (Identifier ''Color'') ''Name'' = Inr (quote @ ''color'' @ quote, sampleState)"
  using
    compilePropertyAccessExpression_constEnum
      [where c = sampleCollaborators and q = sampleTypeChecker and st = sampleState
         and exp = "Identifier ''Color''" and propertyStr = "''Red''" and expStr = "''Color''"
         and ?st1.0 = sampleState and ?st2.0 = sampleState and ?st3.0 = sampleState
         and enum = "the (typeSymbol colorEnum)"
         and members = "[(''Red'', NumberValue ''0''), (''Name'', StringValue ''color'')]"
         and number = "''0''"]
    compilePropertyAccessExpression_constEnum
      [where c = sampleCollaborators and q = sampleTypeChecker and st = sampleState
         and exp = "Identifier ''Color''" and propertyStr = "''Name''" and expStr = "''Color''"
         and ?st1.0 = sampleState and ?st2.0 = sampleState and ?st3.0 = sampleState
         and enum = "the (typeSymbol colorEnum)"
         and members = "[(''Red'', NumberValue ''0''), (''Name'', StringValue ''color'')]"
         and string = "''color''"]
  by (simp add: sampleCollaborators_def sampleTypeChecker_def colorEnum_def)

subsection \<open>Readable expression names\<close>

lemma definedInExportLet_iff:
  "definedInExportLet defs \<longleftrightarrow>
     (\<exists>d v. d \<in> set defs \<and> enclosingStatement d = Some v \<and> hasExportKeyword v
            \<and> declarationKind v = Let_kind)"
  by (induction defs rule: definedInExportLet.induct) (auto split: option.splits)

lemma boundToExportLet_defined:
  "boundToExportLet q exp \<Longrightarrow> isIdentifierDefinedInExportLet q exp"
  by (auto simp add: boundToExportLet_def isIdentifierDefinedInExportLet_def
        definedInExportLet_iff list_ex_iff split: option.splits)

lemma matchesTemporary_iff:
  "matchesTemporary s \<longleftrightarrow>
     (\<exists>ds. s = ''_'' @ ds \<and> ds \<noteq> [] \<and> list_all isDigit ds)"
  by (cases s) (auto simp add: matchesTemporary_def)

text \<open>
  Claim C8, amended. An expression text of the form \<^verbatim>\<open>_\<close> followed by one or more
  decimal digits, and an identifier none of whose definitions has an exported \<^verbatim>\<open>let\<close>
  statement as its first enclosing variable statement, are returned as they are and the
  state is not touched. Everything else is handed to
  \<open>pushPrecedingStatementToNextId\<close>, whose name and state are returned: so is every
  identifier bound to an exported \<^verbatim>\<open>let\<close> binding, and so is an identifier that is only
  declared inside an exported \<^verbatim>\<open>let\<close> statement. A name that already is a temporary is
  never extracted again, whatever expression it is lowered for.
\<close>

theorem getReadableExpressionName_cases:
  "(matchesTemporary expStr \<longleftrightarrow>
      (\<exists>ds. expStr = ''_'' @ ds \<and> ds \<noteq> [] \<and> list_all isDigit ds))
   \<and> (isIdentifierDefinedInExportLet q exp \<longleftrightarrow>
        (\<exists>d v. d \<in> set (getDefinitions q exp) \<and> enclosingStatement d = Some v
               \<and> hasExportKeyword v \<and> declarationKind v = Let_kind))
   \<and> (boundToExportLet q exp \<longrightarrow> isIdentifierDefinedInExportLet q exp)
   \<and> (matchesTemporary expStr \<longrightarrow>
        getReadableExpressionName c q st exp expStr = (expStr, st))
   \<and> (isIdentifier exp \<longrightarrow> \<not> isIdentifierDefinedInExportLet q exp \<longrightarrow>
        getReadableExpressionName c q st exp expStr = (expStr, st))
   \<and> (\<not> matchesTemporary expStr \<longrightarrow>
        (isIdentifier exp \<longrightarrow> isIdentifierDefinedInExportLet q exp) \<longrightarrow>
        getReadableExpressionName c q st exp expStr
        = pushPrecedingStatementToNextId c st exp expStr)
   \<and> (getReadableExpressionName c q st exp expStr = (temporary, st1) \<longrightarrow>
        matchesTemporary temporary \<longrightarrow>
        getReadableExpressionName c q st1 exp2 temporary = (temporary, st1))"
  using matchesTemporary_iff [of expStr] definedInExportLet_iff [of "getDefinitions q exp"]
    boundToExportLet_defined [of q exp]
  by (auto simp add: getReadableExpressionName_def isIdentifierDefinedInExportLet_def)

theorem getReadableExpressionName_cases_witness:
  "getReadableExpressionName sampleCollaborators sampleTypeChecker
     (enterPrecedingStatementContext sampleState) (OtherExpression ''anything'') ''_12''
   = (''_12'', enterPrecedingStatementContext sampleState)
   \<and> getReadableExpressionName sampleCollaborators sampleTypeChecker
       (enterPrecedingStatementContext sampleState) (Identifier ''x'') ''x''
     = (''x'', enterPrecedingStatementContext sampleState)
   \<and> getReadableExpressionName sampleCollaborators sampleTypeChecker
       (enterPrecedingStatementContext sampleState) (Identifier ''counter'') ''counter''
     = (''_0'', sampleState\<lparr>idStack := [1],
                  precedingStatementContexts := [[''local _0 = counter;'' @ newline]]\<rparr>)
   \<and> getReadableExpressionName sampleCollaborators sampleTypeChecker
       (enterPrecedingStatementContext sampleState) (CallExpression (Identifier ''f'') []) ''f()''
     = (''_0'', sampleState\<lparr>idStack := [1],
                  precedingStatementContexts := [[''local _0 = f();'' @ newline]]\<rparr>)
   \<and> getReadableExpressionName sampleCollaborators sampleTypeChecker
       (sampleState\<lparr>idStack := [1],
                  precedingStatementContexts := [[''local _0 = f();'' @ newline]]\<rparr>)
       (CallExpression (Identifier ''f'') []) ''_0''
     = (''_0'', sampleState\<lparr>idStack := [1],
                  precedingStatementContexts := [[''local _0 = f();'' @ newline]]\<rparr>)"
proof -
  let ?st = "enterPrecedingStatementContext sampleState"
  let ?st1 = "sampleState\<lparr>idStack := [1],
                  precedingStatementContexts := [[''local _0 = f();'' @ newline]]\<rparr>"
  have m1: "matchesTemporary ''_12''" and m2: "matchesTemporary ''_0''"
    and m3: "\<not> matchesTemporary ''counter''" and m4: "\<not> matchesTemporary ''f()''"
    by (simp_all add: matchesTemporary_def isDigit_def)
  have d1: "\<not> isIdentifierDefinedInExportLet sampleTypeChecker (Identifier ''x'')"
    and d2: "isIdentifierDefinedInExportLet sampleTypeChecker (Identifier ''counter'')"
    by (simp_all add: isIdentifierDefinedInExportLet_def sampleTypeChecker_def)
  have push: "pushPrecedingStatementToNextId sampleCollaborators ?st e expStr
      = (''_0'', sampleState\<lparr>idStack := [1],
                  precedingStatementContexts := [[''local _0 = '' @ expStr @ '';'' @ newline]]\<rparr>)"
    for e expStr
    by (simp add: sampleCollaborators_def samplePushToNextId_def sampleState_def
          enterPrecedingStatementContext_def Let_def)
  have c1: "getReadableExpressionName sampleCollaborators sampleTypeChecker ?st
      (OtherExpression ''anything'') ''_12'' = (''_12'', ?st)"
    using getReadableExpressionName_cases [where expStr = "''_12''" and st = ?st
        and c = sampleCollaborators and q = sampleTypeChecker and exp = "OtherExpression ''anything''"] m1
    by blast
  have c2: "getReadableExpressionName sampleCollaborators sampleTypeChecker ?st
      (Identifier ''x'') ''x'' = (''x'', ?st)"
    using getReadableExpressionName_cases [where expStr = "''x''" and st = ?st
        and c = sampleCollaborators and q = sampleTypeChecker and exp = "Identifier ''x''"] d1
    by simp
  have c3: "getReadableExpressionName sampleCollaborators sampleTypeChecker ?st
      (Identifier ''counter'') ''counter''
      = pushPrecedingStatementToNextId sampleCollaborators ?st (Identifier ''counter'') ''counter''"
    using getReadableExpressionName_cases [where expStr = "''counter''" and st = ?st
        and c = sampleCollaborators and q = sampleTypeChecker and exp = "Identifier ''counter''"] d2 m3
    by blast
  have c4: "getReadableExpressionName sampleCollaborators sampleTypeChecker ?st
      (CallExpression (Identifier ''f'') []) ''f()''
      = pushPrecedingStatementToNextId sampleCollaborators ?st (CallExpression (Identifier ''f'') []) ''f()''"
    using getReadableExpressionName_cases [where expStr = "''f()''" and st = ?st
        and c = sampleCollaborators and q = sampleTypeChecker
        and exp = "CallExpression (Identifier ''f'') []"] m4
    by simp
  have c5: "getReadableExpressionName sampleCollaborators sampleTypeChecker ?st1
      (CallExpression (Identifier ''f'') []) ''_0'' = (''_0'', ?st1)"
    using getReadableExpressionName_cases [where expStr = "''f()''" and st = ?st
        and c = sampleCollaborators and q = sampleTypeChecker
        and exp = "CallExpression (Identifier ''f'') []" and temporary = "''_0''"
        and ?st1.0 = ?st1 and ?exp2.0 = "CallExpression (Identifier ''f'') []"] m2 c4 push
    by simp
  show ?thesis
    using c1 c2 c3 c4 c5 by (simp add: push)
qed

text \<open>
  The claim as first stated fails for the parameter \<open>n\<close> of
  \<^verbatim>\<open>export let g = (n: number) => n + 1;\<close>. It is an identifier that is not bound to an
  exported \<^verbatim>\<open>let\<close> binding, yet its definition has the exported statement as its first
  enclosing variable statement, and it is extracted into a temporary.
\<close>

theorem getReadableExpressionName_parameter_counterexample:
  "isIdentifier (Identifier ''n'')
   \<and> \<not> boundToExportLet sampleTypeChecker (Identifier ''n'')
   \<and> getReadableExpressionName sampleCollaborators sampleTypeChecker
       (enterPrecedingStatementContext sampleState) (Identifier ''n'') ''n''
     = (''_0'', sampleState\<lparr>idStack := [1],
                  precedingStatementContexts := [[''local _0 = n;'' @ newline]]\<rparr>)
   \<and> getReadableExpressionName sampleCollaborators sampleTypeChecker
       (enterPrecedingStatementContext sampleState) (Identifier ''n'') ''n''
     \<noteq> (''n'', enterPrecedingStatementContext sampleState)"
  by (simp add: getReadableExpressionName_def isIdentifierDefinedInExportLet_def
        boundToExportLet_def matchesTemporary_def sampleTypeChecker_def sampleCollaborators_def
        samplePushToNextId_def sampleState_def enterPrecedingStatementContext_def Let_def)

subsection \<open>Element access\<close>








lemma compileElementAccessExpression_plain:
  assumes "\<not> (isCallExpression expNode \<and> isTupleReturnTypeCall u expNode)"
      and "elementAccessIndex c inexact st argExp (elementAccessAddOne u q expNode argExp)
           = Inr (argExpStr, st1)"
      and "compileExpression c st1 expNode = Inr (expStr, st2)"
      and "checkNonAny c expNode = None" and "checkNonAny c argExp = None"
  shows "compileElementAccessExpression c u q inexact st expNode (Some argExp)
           = Inr (expStr @ ''['' @ argExpStr @ '']'', st2)
         \<or> compileElementAccessExpression c u q inexact st expNode (Some argExp)
           = Inr (''('' @ expStr @ '')['' @ argExpStr @ '']'', st2)"
proof -
  have other: "(isCallExpression expNode \<and> isTupleReturnTypeCall u expNode) = False"
    using assms(1) by simp
  show ?thesis
    unfolding compileElementAccessExpression_def option.case assms(2) andThen_Inr other if_False
      assms(3) assms(4) assms(5) checked_None Let_def
    by simp
qed




text \<open>
  Claim C10. A numeric literal index whose source text contains the character \<^verbatim>\<open>e\<close> is
  never folded: its text comes from \<open>compileExpression\<close>, whatever
  \<open>compileNumericLiteral\<close> would give, and \<^verbatim>\<open> + 1\<close> is appended exactly when one is to
  be added. With a base of array type that is not a tuple call, the access is emitted
  with the index \<^verbatim>\<open>compiled + 1\<close>.
\<close>

theorem elementAccess_exponent_literal:
  assumes "CHR ''e'' \<in> set source"
  shows "(compileExpression c st (NumericLiteral source) = Inr (compiled, st1) \<longrightarrow>
            elementAccessIndex c inexact st (NumericLiteral source) addOne
            = Inr (compiled @ (if addOne then '' + 1'' else []), st1))
       \<and> (compileExpression c st (NumericLiteral source) = Inl e \<longrightarrow>
            elementAccessIndex c inexact st (NumericLiteral source) addOne = Inl e)
       \<and> (isNumberType u (getType q (NumericLiteral source)) \<longrightarrow>
            isArrayType u (getType q expNode) \<longrightarrow>
            \<not> (isCallExpression expNode \<and> isTupleReturnTypeCall u expNode) \<longrightarrow>
            compileExpression c st (NumericLiteral source) = Inr (compiled, st1) \<longrightarrow>
            compileExpression c st1 expNode = Inr (expStr, st2) \<longrightarrow>
            checkNonAny c expNode = None \<longrightarrow> checkNonAny c (NumericLiteral source) = None \<longrightarrow>
            compileElementAccessExpression c u q inexact st expNode (Some (NumericLiteral source))
              = Inr (expStr @ ''['' @ compiled @ '' + 1]'', st2)
            \<or> compileElementAccessExpression c u q inexact st expNode (Some (NumericLiteral source))
              = Inr (''('' @ expStr @ '')['' @ compiled @ '' + 1]'', st2))"
proof -
  have index: "compileExpression c st (NumericLiteral source) = Inr (compiled, st1) \<longrightarrow>
      elementAccessIndex c inexact st (NumericLiteral source) b
      = Inr (compiled @ (if b then '' + 1'' else []), st1)" for b
    using assms by (simp add: elementAccessIndex_def)
  have failed: "compileExpression c st (NumericLiteral source) = Inl e \<longrightarrow>
      elementAccessIndex c inexact st (NumericLiteral source) addOne = Inl e"
    using assms by (simp add: elementAccessIndex_def)
  have whole: "isNumberType u (getType q (NumericLiteral source)) \<longrightarrow>
      isArrayType u (getType q expNode) \<longrightarrow>
      \<not> (isCallExpression expNode \<and> isTupleReturnTypeCall u expNode) \<longrightarrow>
      compileExpression c st (NumericLiteral source) = Inr (compiled, st1) \<longrightarrow>
      compileExpression c st1 expNode = Inr (expStr, st2) \<longrightarrow>
      checkNonAny c expNode = None \<longrightarrow> checkNonAny c (NumericLiteral source) = None \<longrightarrow>
      compileElementAccessExpression c u q inexact st expNode (Some (NumericLiteral source))
        = Inr (expStr @ ''['' @ compiled @ '' + 1]'', st2)
      \<or> compileElementAccessExpression c u q inexact st expNode (Some (NumericLiteral source))
        = Inr (''('' @ expStr @ '')['' @ compiled @ '' + 1]'', st2)"
    using index [of "elementAccessAddOne u q expNode (NumericLiteral source)"]
      compileElementAccessExpression_plain
        [of expNode u c inexact st "NumericLiteral source" q "compiled @ '' + 1''" st1 expStr st2]
    by (auto simp add: elementAccessAddOne_def)
  show ?thesis
    using index [of addOne] failed whole by blast
qed

theorem elementAccess_exponent_literal_witness:
  "CHR ''e'' \<in> set ''1e3''
   \<and> elementAccessIndex sampleCollaborators sampleInexact sampleState (NumericLiteral ''1e3'') True
     = Inr (''1e3 + 1'', sampleState)
   \<and> compileElementAccessExpression sampleCollaborators sampleTypeUtilities sampleTypeChecker
       sampleInexact sampleState (Identifier ''arr'') (Some (NumericLiteral ''1e3''))
     = Inr (''arr[1e3 + 1]'', sampleState)"
proof -
  have e: "CHR ''e'' \<in> set ''1e3''"
    by simp
  have index: "elementAccessIndex sampleCollaborators sampleInexact sampleState
      (NumericLiteral ''1e3'') True = Inr (''1e3 + 1'', sampleState)"
    using elementAccess_exponent_literal [OF e, where c = sampleCollaborators
        and st = sampleState and compiled = "''1e3''" and ?st1.0 = sampleState and addOne = True
        and inexact = sampleInexact]
    by (simp add: sampleCollaborators_def)
  have whole: "compileElementAccessExpression sampleCollaborators sampleTypeUtilities
      sampleTypeChecker sampleInexact sampleState (Identifier ''arr'') (Some (NumericLiteral ''1e3''))
      = Inr (''arr[1e3 + 1]'', sampleState)"
    using elementAccess_exponent_literal [OF e, where c = sampleCollaborators
        and u = sampleTypeUtilities and q = sampleTypeChecker
        and st = sampleState and compiled = "''1e3''" and ?st1.0 = sampleState
        and ?st2.0 = sampleState and expStr = "''arr''" and expNode = "Identifier ''arr''"
        and inexact = sampleInexact]
    by (simp add: sampleCollaborators_def sampleTypeUtilities_def sampleTypeChecker_def
          sampleType_def compileElementAccessExpression_def elementAccessIndex_def
          elementAccessAddOne_def)
  show ?thesis
    using e index whole by blast
qed

subsection \<open>Parameters with a default value\<close>

lemma transformParametersFrom_append:
  "transformParametersFrom t st (ps @ qs) acc =
     (case transformParametersFrom t st ps acc of
        Inl e \<Rightarrow> Inl e
      | Inr (acc1, st1) \<Rightarrow> transformParametersFrom t st1 qs acc1)"
proof (induction ps arbitrary: st acc)
  case Nil
  show ?case by simp
next
  case (Cons p ps)
  show ?case
    by (simp add: Cons.IH Let_def split: bindingName.splits sum.splits prod.splits option.splits)
qed

lemma transformParametersFrom_extends:
  "transformParametersFrom t st ps acc = Inr (r, st1) \<Longrightarrow>
     (\<exists>more. statementsOf r = statementsOf acc @ more)
     \<and> (\<exists>more. parametersOf r = parametersOf acc @ more)"
proof (induction ps arbitrary: st acc)
  case Nil
  then show ?case by simp
next
  case (Cons p ps)
  from Cons.prems show ?case
    by (auto simp add: Let_def split: bindingName.splits sum.splits prod.splits option.splits
          if_splits dest!: Cons.IH)
qed

lemma transformParametersFrom_step:
  assumes "transformParametersFrom t st1 (p # qs) r = Inr (res, stEnd)"
      and "tsInitializer p = Some init"
  shows "\<exists>x paramId st2 right prereqs st3.
           tsName p = BindingIdentifier x
           \<and> transformIdentifierDefined t st1 x = Inr (paramId, st2)
           \<and> transformExpression t st2 init = Inr (right, prereqs, st3)
           \<and> transformParametersFrom t st3 qs
                (r\<lparr>parametersOf := parametersOf r @ (if dotDotDotToken p then [] else [paramId]),
                   hasDotDotDot := (dotDotDotToken p \<or> hasDotDotDot r),
                   statementsOf := statementsOf r
                     @ (if dotDotDotToken p
                        then [LuaVariableDeclaration paramId (LuaArray [LuaVarArgsLiteral])] else [])
                     @ [LuaIfStatement (LuaBinaryExpression paramId ''=='' LuaNil)
                          (prereqs @ [LuaAssignment paramId right]) []]\<rparr>)
              = Inr (res, stEnd)"
  using assms
  by (auto simp add: Let_def transformParamInitializer_def
        split: bindingName.splits sum.splits prod.splits if_splits)

text \<open>
  Claim C9. Let a parameter list be lowered with success and let \<open>p\<close> be one of its
  parameters with an initializer, after the parameters \<open>ps\<close>. Then \<open>p\<close> is bound by an
  identifier, and the statements returned are: those of \<open>ps\<close>; for a rest parameter the
  declaration that binds \<open>p\<close>; the if statement whose condition compares the
  identifier of \<open>p\<close> with \<^verbatim>\<open>nil\<close> by \<^verbatim>\<open>==\<close>, whose body is the prerequisite statements of
  the lowered initializer followed by the assignment of the lowered initializer to the
  identifier, and whose else body is empty; then the statements of the later
  parameters. An ordinary \<open>p\<close> takes the parameter slot after those of \<open>ps\<close>. The if
  statements are returned among the statements that open the function body, each after
  the bindings of all earlier parameters.
\<close>

theorem transformParameters_default:
  assumes "transformParameters t st (ps @ p # qs) = Inr (res, stEnd)"
      and "tsInitializer p = Some init"
  shows "\<exists>r st1 x paramId st2 right prereqs st3 later laterParameters.
           transformParameters t st ps = Inr (r, st1)
           \<and> tsName p = BindingIdentifier x
           \<and> transformIdentifierDefined t st1 x = Inr (paramId, st2)
           \<and> transformExpression t st2 init = Inr (right, prereqs, st3)
           \<and> statementsOf res =
               statementsOf r
               @ (if dotDotDotToken p
                  then [LuaVariableDeclaration paramId (LuaArray [LuaVarArgsLiteral])] else [])
               @ [LuaIfStatement (LuaBinaryExpression paramId ''=='' LuaNil)
                    (prereqs @ [LuaAssignment paramId right]) []]
               @ later
           \<and> parametersOf res =
               parametersOf r @ (if dotDotDotToken p then [] else [paramId]) @ laterParameters"
proof -
  let ?empty = "\<lparr>parametersOf = [], statementsOf = [], hasDotDotDot = False\<rparr>"
  from assms(1) obtain r st1 where
    before: "transformParametersFrom t st ps ?empty = Inr (r, st1)" and
    rest: "transformParametersFrom t st1 (p # qs) r = Inr (res, stEnd)"
    by (auto simp add: transformParameters_def transformParametersFrom_append
          split: sum.splits prod.splits)
  from transformParametersFrom_step [OF rest assms(2)] obtain x paramId st2 right prereqs st3 where
    name: "tsName p = BindingIdentifier x" and
    ident: "transformIdentifierDefined t st1 x = Inr (paramId, st2)" and
    expr: "transformExpression t st2 init = Inr (right, prereqs, st3)" and
    after: "transformParametersFrom t st3 qs
              (r\<lparr>parametersOf := parametersOf r @ (if dotDotDotToken p then [] else [paramId]),
                 hasDotDotDot := (dotDotDotToken p \<or> hasDotDotDot r),
                 statementsOf := statementsOf r
                   @ (if dotDotDotToken p
                      then [LuaVariableDeclaration paramId (LuaArray [LuaVarArgsLiteral])] else [])
                   @ [LuaIfStatement (LuaBinaryExpression paramId ''=='' LuaNil)
                        (prereqs @ [LuaAssignment paramId right]) []]\<rparr>)
            = Inr (res, stEnd)"
    by blast
  from transformParametersFrom_extends [OF after] obtain later laterParameters where
    "statementsOf res =
       statementsOf r
       @ (if dotDotDotToken p
          then [LuaVariableDeclaration paramId (LuaArray [LuaVarArgsLiteral])] else [])
       @ [LuaIfStatement (LuaBinaryExpression paramId ''=='' LuaNil)
            (prereqs @ [LuaAssignment paramId right]) []]
       @ later"
    "parametersOf res =
       parametersOf r @ (if dotDotDotToken p then [] else [paramId]) @ laterParameters"
    by auto
  with before name ident expr show ?thesis
    unfolding transformParameters_def by blast
qed

theorem transformParameters_default_witness:
  "transformParameters sampleTransformer 0
     ([\<lparr>tsName = BindingIdentifier ''x'', dotDotDotToken = False, tsInitializer = None\<rparr>]
      @ \<lparr>tsName = BindingIdentifier ''y'', dotDotDotToken = False,
          tsInitializer = Some (OtherExpression ''x + 1'')\<rparr> # [])
   = Inr (\<lparr>parametersOf = [LuaIdentifier ''x'', LuaIdentifier ''y''],
            statementsOf =
              [LuaIfStatement (LuaBinaryExpression (LuaIdentifier ''y'') ''=='' LuaNil)
                 [LuaAssignment (LuaIdentifier ''y'') (LuaOtherExpression ''x + 1'')] []],
            hasDotDotDot = False\<rparr>, 0)
   \<and> (\<exists>r st1 paramId st2 right prereqs st3 later laterParameters.
         transformParameters sampleTransformer 0
           [\<lparr>tsName = BindingIdentifier ''x'', dotDotDotToken = False, tsInitializer = None\<rparr>]
         = Inr (r, st1)
         \<and> transformIdentifierDefined sampleTransformer st1 ''y'' = Inr (paramId, st2)
         \<and> transformExpression sampleTransformer st2 (OtherExpression ''x + 1'')
           = Inr (right, prereqs, st3)
         \<and> [LuaIfStatement (LuaBinaryExpression (LuaIdentifier ''y'') ''=='' LuaNil)
              [LuaAssignment (LuaIdentifier ''y'') (LuaOtherExpression ''x + 1'')] []]
           = statementsOf r
             @ [LuaIfStatement (LuaBinaryExpression paramId ''=='' LuaNil)
                  (prereqs @ [LuaAssignment paramId right]) []]
             @ later
         \<and> [LuaIdentifier ''x'', LuaIdentifier ''y'']
           = parametersOf r @ [paramId] @ laterParameters)"
proof -
  let ?x = "\<lparr>tsName = BindingIdentifier ''x'', dotDotDotToken = False, tsInitializer = None\<rparr>"
  let ?y = "\<lparr>tsName = BindingIdentifier ''y'', dotDotDotToken = False,
              tsInitializer = Some (OtherExpression ''x + 1'')\<rparr>"
  let ?res = "\<lparr>parametersOf = [LuaIdentifier ''x'', LuaIdentifier ''y''],
            statementsOf =
              [LuaIfStatement (LuaBinaryExpression (LuaIdentifier ''y'') ''=='' LuaNil)
                 [LuaAssignment (LuaIdentifier ''y'') (LuaOtherExpression ''x + 1'')] []],
            hasDotDotDot = False\<rparr>"
  have run: "transformParameters sampleTransformer 0 ([?x] @ ?y # []) = Inr (?res, 0)"
    by (simp add: transformParameters_def transformParamInitializer_def sampleTransformer_def)
  have init: "tsInitializer ?y = Some (OtherExpression ''x + 1'')"
    by simp
  show ?thesis
    using run transformParameters_default [OF run init] by simp
qed

subsection \<open>Return statements in constructors\<close>

text \<open>
  A constructor whose body has a return statement among its own statements is never
  lowered with success; when the parameters and the statements compile, the diagnostic
  is \<open>NoConstructorReturn\<close> at that return statement. The check finds no return
  statement exactly when none of the body's own statements is one.
\<close>

lemma compileConstructorDeclaration_return_never_succeeds:
  assumes "functionBody n = Some (BlockBody bodyStatements)"
      and "getReturnStatementOfBody bodyStatements = Some returnStatement"
  shows "\<exists>e. compileConstructorDeclaration c st className (Some n) extraInitializers hasSuper = Inl e"
  using assms
  by (auto simp add: compileConstructorDeclaration_def Let_def andThen_def
        split: sum.splits prod.splits option.splits)

lemma compileConstructorDeclaration_return:
  assumes "functionBody n = Some (BlockBody bodyStatements)"
      and "getReturnStatementOfBody bodyStatements = Some returnStatement"
      and "getParameterData c (pushIdStack st) [''self''] [] n (Some []) = Inr ((paramNames, ins, defs), st1)"
      and "leadingSuperCall bodyStatements = (superCall, others)"
      and "(case superCall of Some s \<Rightarrow> compileStatement c (pushIndent st1) s
            | None \<Rightarrow> Inr ([], pushIndent st1)) = Inr (superStr, st3)"
      and "compileStatements c st3 others = Inr (othersStr, st4)"
  shows "compileConstructorDeclaration c st className (Some n) extraInitializers hasSuper
         = Inl (CompilerError (''Cannot use return statement in constructor for '' @ className)
                  (StatementNode returnStatement) NoConstructorReturn)"
  using assms
  by (simp add: compileConstructorDeclaration_def Let_def)

lemma getReturnStatementOfBody_iff:
  "getReturnStatementOfBody bodyStatements = None \<longleftrightarrow> (\<forall>s \<in> set bodyStatements. \<not> isReturnStatement s)"
  by (auto simp add: getReturnStatementOfBody_def find_None_iff)

text \<open>
  When none of the body's own statements is a return statement and the parameters and
  the statements compile, the constructor is lowered with success, whatever the
  statements hold inside.
\<close>

lemma compileConstructorDeclaration_no_own_return:
  assumes "functionBody n = Some (BlockBody bodyStatements)"
      and "\<forall>s \<in> set bodyStatements. \<not> isReturnStatement s"
      and "getParameterData c (pushIdStack st) [''self''] [] n (Some []) = Inr ((paramNames, ins, defs), st1)"
      and "leadingSuperCall bodyStatements = (superCall, others)"
      and "(case superCall of Some s \<Rightarrow> compileStatement c (pushIndent st1) s
            | None \<Rightarrow> Inr ([], pushIndent st1)) = Inr (superStr, st3)"
      and "compileStatements c st3 others = Inr (othersStr, st4)"
  shows "\<exists>emitted. compileConstructorDeclaration c st className (Some n) extraInitializers hasSuper
           = Inr (emitted, popIdStack (popIndent st4))"
  using assms getReturnStatementOfBody_iff [of bodyStatements]
  by (simp add: compileConstructorDeclaration_def Let_def)

text \<open>
  Claim C5. The claim says that a return statement inside a constructor body raises a
  diagnostic. The constructor of
  \<^verbatim>\<open>class A { constructor(done: boolean) { if (done) { return; } } }\<close> is lowered with
  no diagnostic: the check looks at the body's own statements only, and the return
  statement nested in the if statement is emitted.
\<close>

theorem compileConstructorDeclaration_nested_return:
  "compileConstructorDeclaration sampleCollaborators sampleState ''A''
     (Some constructorWithNestedReturn) None False
   = Inr (''A.constructor = function(self, done)'' @ newline
          @ tab @ ''if done then return nil; end;'' @ newline
          @ tab @ ''return self;'' @ newline
          @ ''end;'' @ newline, sampleState)"
  by (simp add: compileConstructorDeclaration_def constructorWithNestedReturn_def
        sampleCollaborators_def sampleState_def sampleParameter_def leadingSuperCall_def
        getReturnStatementOfBody_def
        pushIdStack_def popIdStack_def pushIndent_def popIndent_def tab_def Let_def)

subsection \<open>Generator functions\<close>

text \<open>
  The text emitted for a generator that is a function declaration, a function
  expression or a method: the closure returns a table whose field \<^verbatim>\<open>next\<close> is
  \<^verbatim>\<open>coroutine.wrap\<close> of a function that holds the lowered body and then, one tab further
  in, the loop \<^verbatim>\<open>repeat coroutine.yield({ done = true }) until false;\<close>.
\<close>

lemma compileFunction_generator:
  assumes kind: "functionKind node = FunctionDeclaration \<or> functionKind node = FunctionExpression
                 \<or> functionKind node = MethodDeclaration"
      and gen: "isGenerator node"
      and result: "compileFunction c u st node name body = Inr (text, st2)"
  shows "\<exists>front paramNames ins st5 bodyStr st6.
           compileFunctionBody c u st5 body node ins = Inr (bodyStr, st6)
           \<and> text =
               front @ ''function('' @ join '', '' paramNames @ '')'' @ newline
               @ indent (popIndent st5) @ ''return {'' @ newline
               @ indent st5 @ ''next = coroutine.wrap(function()''
               @ bodyStr
               @ tab @ ''repeat coroutine.yield({ done = true }) until false;'' @ newline
               @ indent st6 @ ''end);'' @ newline
               @ indent (popIndent st6) @ ''};'' @ newline
               @ indent (popIndent (popIndent st6)) @ ''end''
               @ (if isAsync node then '')'' else []) @ (if name = [] then [] else '';'' @ newline)"
proof -
  have plain: "functionKind node \<noteq> GetAccessorDeclaration" "functionKind node \<noteq> SetAccessorDeclaration"
    "functionKind node \<noteq> ConstructorDeclaration" "functionKind node \<noteq> ArrowFunction"
    using kind by auto
  have pop: "indent (popIndent (pushIndent s)) = indent s" for s
    by (simp add: popIndent_def pushIndent_def tab_def butlast_append)
  from result obtain paramNames0 ins defs st1 where
    params: "getParameterData c (pushIdStack st) [] [] node None = Inr ((paramNames0, ins, defs), st1)"
    by (auto simp add: compileFunction_def andThen_eq_Inr)
  define hoisted where
    "hoisted = (functionKind node = FunctionDeclaration \<and>
                (case nameNode node of None \<Rightarrow> False | Some n \<Rightarrow> shouldHoist u node n))"
  define st2 where "st2 = (if hoisted then pushHoistStack st1 name else st1)"
  define st3 where "st3 = (if isAsync node then st2\<lparr>usesTSLibrary := True\<rparr> else st2)"
  define front where
    "front = (if name = [] then []
              else indent st2
                   @ (if functionKind node = FunctionDeclaration \<and> \<not> hoisted then ''local '' else [])
                   @ name @ '' = '')
             @ (if isAsync node then ''TS.async('' else [])"
  define paramNames where
    "paramNames = (if functionKind node = MethodDeclaration
                   then giveInitialSelfParameter node paramNames0 else paramNames0)"
  define close where
    "close = (if isAsync node then '')'' else []) @ (if name = [] then [] else '';'' @ newline)"
  have unfolded: "compileFunction c u st node name body =
      checked (checkReturnsNonAny c node)
        (checked (isIterableIterator u (returnType node) node)
           (andThen (compileFunctionBody c u (pushIndent (pushIndent st3)) body node ins)
              (\<lambda>bodyStr st6.
                 Inr (front @ ''function('' @ join '', '' paramNames @ '')'' @ newline
                      @ indent (pushIndent st3) @ ''return {'' @ newline
                      @ indent (pushIndent (pushIndent st3)) @ ''next = coroutine.wrap(function()''
                      @ bodyStr
                      @ tab @ ''repeat coroutine.yield({ done = true }) until false;'' @ newline
                      @ indent st6 @ ''end);'' @ newline
                      @ indent (popIndent st6) @ ''};'' @ newline
                      @ indent (popIndent (popIndent st6)) @ ''end'' @ close,
                      popIdStack (popIndent (popIndent st6))))))"
    unfolding compileFunction_def params andThen_Inr case_prod_conv Let_def
    using kind
    by (auto simp add: plain gen hoisted_def st2_def st3_def front_def paramNames_def close_def
          intro!: arg_cong2 [where f = checked] arg_cong2 [where f = andThen])
  from result obtain bodyStr st6 where
    body: "compileFunctionBody c u (pushIndent (pushIndent st3)) body node ins = Inr (bodyStr, st6)" and
    emitted: "text = front @ ''function('' @ join '', '' paramNames @ '')'' @ newline
                      @ indent (pushIndent st3) @ ''return {'' @ newline
                      @ indent (pushIndent (pushIndent st3)) @ ''next = coroutine.wrap(function()''
                      @ bodyStr
                      @ tab @ ''repeat coroutine.yield({ done = true }) until false;'' @ newline
                      @ indent st6 @ ''end);'' @ newline
                      @ indent (popIndent st6) @ ''};'' @ newline
                      @ indent (popIndent (popIndent st6)) @ ''end'' @ close"
    unfolding unfolded by (auto simp add: checked_eq_Inr andThen_eq_Inr)
  show ?thesis
    apply (rule exI [of _ front], rule exI [of _ paramNames], rule exI [of _ ins])
    apply (rule exI [of _ "pushIndent (pushIndent st3)"], rule exI [of _ bodyStr], rule exI [of _ st6])
    using body emitted by (simp add: pop close_def)
qed

end
